theory Spec2Isabelle
  imports Complex_Main "HOL-Library.Char_ord" "HOL-Library.List_Lexorder"
begin

section \<open>LaunchLens: the statistical core of the A/B readout\<close>

text \<open>
  The Python sources compute with IEEE doubles. Here a finite double is a \<^typ>\<open>real\<close> and
  arithmetic is exact; Python \<open>int\<close> is \<^typ>\<open>int\<close>. Where the code stores a value that may
  be NaN or infinite in a result, the field has type \<open>pyfloat\<close>. Exceptions are values of
  \<open>pyerror\<close>, and a function that can raise returns \<open>pyerror + 'a\<close>.

  Exact arithmetic agrees with the doubles up to rounding. It does not agree where a result
  is discrete and the exact value sits on a boundary: a decimal tie in a formatted number,
  or a variance that is exactly zero. The properties below are stated so that they do not
  rest on such a boundary; where the code's behaviour at one matters, the text says so.
\<close>

subsection \<open>Python values and exceptions\<close>

datatype pyerror = ValueError string | ZeroDivisionError | IndexError

datatype pyfloat = Fin real | PInf | NInf | NaN

text \<open>\<open>math.sqrt\<close> raises \<open>ValueError: math domain error\<close> on a negative argument.\<close>

definition math_sqrt :: "real \<Rightarrow> pyerror + real" where
  "math_sqrt x = (if x < 0 then Inl (ValueError ''math domain error'') else Inr (sqrt x))"

text \<open>True division \<open>a / b\<close> of two Python ints raises on a zero divisor.\<close>

definition int_truediv :: "int \<Rightarrow> int \<Rightarrow> pyerror + real" where
  "int_truediv a b = (if b = 0 then Inl ZeroDivisionError else Inr (real_of_int a / real_of_int b))"

subsection \<open>The standard normal distribution (\<open>scipy.stats.norm\<close>)\<close>

text \<open>
  The library functions are given by their mathematical meaning. The upper tail \<open>norm_sf\<close>
  is the antiderivative of the negated density that vanishes at infinity; \<open>norm_cdf\<close> is
  its complement and \<open>norm_ppf\<close> the inverse of \<open>norm_cdf\<close>.
\<close>

definition norm_pdf :: "real \<Rightarrow> real" where
  "norm_pdf x = exp (- (x\<^sup>2) / 2) / sqrt (2 * pi)"

definition is_norm_sf :: "(real \<Rightarrow> real) \<Rightarrow> bool" where
  "is_norm_sf F \<longleftrightarrow>
     (\<forall>x. (F has_real_derivative - norm_pdf x) (at x)) \<and> (F \<longlongrightarrow> 0) at_top"

definition norm_sf :: "real \<Rightarrow> real" where
  "norm_sf = (THE F. is_norm_sf F)"

definition norm_cdf :: "real \<Rightarrow> real" where
  "norm_cdf x = 1 - norm_sf x"

definition norm_ppf :: "real \<Rightarrow> real" where
  "norm_ppf q = (THE z. norm_cdf z = q)"

subsection \<open>A primitive of the Gaussian\<close>

text \<open>
  The power series \<open>\<Sum>m. (-1/2)^m x^(2m+1) / (m! (2m+1))\<close>, a primitive of
  \<open>exp (- x\<^sup>2 / 2)\<close>. It serves to show that \<open>norm_sf\<close> above is well defined and to bound it.
\<close>

definition gauss_coeff :: "nat \<Rightarrow> real" where
  "gauss_coeff n =
     (if even n then 0
      else (- 1 / 2) ^ ((n - 1) div 2) / (fact ((n - 1) div 2) * real n))"

definition gauss_primitive :: "real \<Rightarrow> real" where
  "gauss_primitive x = (\<Sum>n. gauss_coeff n * x ^ n)"

subsection \<open>Proportion comparator (\<open>ab_readout._two_proportion_ztest\<close>)\<close>

text \<open>The two square-root arguments of the function, named so that they can be spoken about.\<close>

definition se_ci_arg :: "int \<Rightarrow> int \<Rightarrow> int \<Rightarrow> int \<Rightarrow> real" where
  "se_ci_arg x1 n1 x2 n2 =
     (let p1 = real_of_int x1 / real_of_int n1; p2 = real_of_int x2 / real_of_int n2
      in p1 * (1 - p1) / real_of_int n1 + p2 * (1 - p2) / real_of_int n2)"

definition se_pooled_arg :: "int \<Rightarrow> int \<Rightarrow> int \<Rightarrow> int \<Rightarrow> real" where
  "se_pooled_arg x1 n1 x2 n2 =
     (let p_pool = real_of_int (x1 + x2) / real_of_int (n1 + n2)
      in p_pool * (1 - p_pool) * (1 / real_of_int n1 + 1 / real_of_int n2))"

text \<open>
  Returns \<open>(p1, p2, diff, (ci_low, ci_high), p_value)\<close>. After the guard \<open>n1 == 0 or n2 == 0\<close>
  the divisions by \<open>n1\<close> and \<open>n2\<close> cannot raise; the division by \<open>n1 + n2\<close> and the two
  calls of \<open>math.sqrt\<close> can.
\<close>

definition two_proportion_ztest ::
  "int \<Rightarrow> int \<Rightarrow> int \<Rightarrow> int \<Rightarrow> pyerror + (real \<times> real \<times> real \<times> (real \<times> real) \<times> real)" where
  "two_proportion_ztest x1 n1 x2 n2 =
     (if n1 = 0 \<or> n2 = 0 then Inr (0, 0, 0, (0, 0), 1)
      else
        let p1 = real_of_int x1 / real_of_int n1;
            p2 = real_of_int x2 / real_of_int n2;
            diff = p2 - p1
        in case math_sqrt (se_ci_arg x1 n1 x2 n2) of
             Inl e \<Rightarrow> Inl e
           | Inr se_ci \<Rightarrow>
               let z = norm_ppf 0.975;
                   ci_low = diff - z * se_ci;
                   ci_high = diff + z * se_ci
               in case int_truediv (x1 + x2) (n1 + n2) of
                    Inl e \<Rightarrow> Inl e
                  | Inr p_pool \<Rightarrow>
                      (case math_sqrt (se_pooled_arg x1 n1 x2 n2) of
                         Inl e \<Rightarrow> Inl e
                       | Inr se_pooled \<Rightarrow>
                           let p_value =
                                 (if se_pooled = 0 then 1
                                  else 2 * (1 - norm_cdf \<bar>diff / se_pooled\<bar>))
                           in Inr (p1, p2, diff, (ci_low, ci_high), p_value)))"

subsection \<open>NumPy reductions\<close>

text \<open>
  \<open>np.mean\<close>, \<open>np.var(ddof=1)\<close> and the off-diagonal entry of \<open>np.cov(ddof=1)\<close>. NumPy divides
  by \<open>max(n - ddof, 0)\<close>, which is the truncated subtraction on \<open>nat\<close>. On arrays too short
  for the divisor to be positive NumPy yields NaN (with a warning, no exception); here the
  quotient by zero is \<open>0\<close>. The callers below either guard these cases or compare the
  value with \<open>> 0\<close>, which is false for NaN and for \<open>0\<close> alike.
\<close>

definition np_mean :: "real list \<Rightarrow> real" where
  "np_mean xs = sum_list xs / real (length xs)"

definition np_var :: "real list \<Rightarrow> real" where
  "np_var xs = (\<Sum>v\<leftarrow>xs. (v - np_mean xs)\<^sup>2) / real (length xs - 1)"

text \<open>\<open>np.cov(y, x)\<close> stacks the two arrays and raises \<open>ValueError\<close> when their lengths differ.\<close>

definition np_cov :: "real list \<Rightarrow> real list \<Rightarrow> pyerror + real" where
  "np_cov y x =
     (if length y \<noteq> length x
      then Inl (ValueError ''all the input array dimensions must match'')
      else Inr ((\<Sum>(yi, xi)\<leftarrow>zip y x. (yi - np_mean y) * (xi - np_mean x)) / real (length y - 1)))"

subsection \<open>Student's t (\<open>scipy.stats.t\<close>, \<open>scipy.stats.ttest_ind\<close>)\<close>

text \<open>
  The quantile function of Student's t distribution and the p-value of
  \<open>stats.ttest_ind(b, a, equal_var=False, nan_policy="omit")\<close> are library code; they are
  parameters of the model.
\<close>

record student_t =
  t_ppf :: "real \<Rightarrow> real \<Rightarrow> real"
  ttest_ind :: "real list \<Rightarrow> real list \<Rightarrow> real"

subsection \<open>Mean comparator, first call site (\<open>ab_readout._two_sample_ttest\<close>)\<close>

text \<open>Returns \<open>(diff, (ci_low, ci_high), p_value)\<close> for \<open>diff = mean(b) - mean(a)\<close>.\<close>

definition two_sample_ttest ::
  "student_t \<Rightarrow> real list \<Rightarrow> real list \<Rightarrow> pyerror + (real \<times> (real \<times> real) \<times> real)" where
  "two_sample_ttest S a b =
     (if length a < 2 \<or> length b < 2 then Inr (0, (0, 0), 1)
      else
        let diff = np_mean b - np_mean a;
            p_value = ttest_ind S b a;
            va = np_var a;
            vb = np_var b;
            na = real (length a);
            nb = real (length b)
        in case math_sqrt (va / na + vb / nb) of
             Inl e \<Rightarrow> Inl e
           | Inr se \<Rightarrow>
               if se = 0 then Inr (diff, (diff, diff), 1)
               else
                 let df_num = (va / na + vb / nb)\<^sup>2;
                     df_den = va\<^sup>2 / (na\<^sup>2 * (na - 1)) + vb\<^sup>2 / (nb\<^sup>2 * (nb - 1));
                     df = (if df_den > 0 then df_num / df_den else na + nb - 2);
                     tcrit = t_ppf S 0.975 df
                 in Inr (diff, (diff - tcrit * se, diff + tcrit * se), p_value))"

subsection \<open>Mean comparator, second call site (\<open>cuped.welch_ttest_ci\<close>)\<close>

text \<open>
  Returns \<open>(diff, ci_low, ci_high, p_value)\<close>. The sample sizes are tested after the
  difference of means and the standard error have been computed, in one guard with
  \<open>se == 0\<close>, and that guard returns \<open>diff\<close> three times. On a sample of one
  observation the variance is NaN in NumPy and so is \<open>se\<close>; \<open>math.sqrt\<close> passes NaN on
  and the guard holds by the size test, as it does here. On an empty sample the mean is
  NaN as well, and the function returns NaN where this model, whose results are reals,
  returns the value of \<open>np_mean\<close>.
\<close>

definition welch_ttest_ci ::
  "student_t \<Rightarrow> real list \<Rightarrow> real list \<Rightarrow> pyerror + (real \<times> real \<times> real \<times> real)" where
  "welch_ttest_ci S a b =
     (let diff = np_mean b - np_mean a;
          va = np_var a;
          vb = np_var b;
          na = real (length a);
          nb = real (length b)
      in case math_sqrt (va / na + vb / nb) of
           Inl e \<Rightarrow> Inl e
         | Inr se \<Rightarrow>
             if se = 0 \<or> na < 2 \<or> nb < 2 then Inr (diff, diff, diff, 1)
             else
               let df_num = (va / na + vb / nb)\<^sup>2;
                   df_den = va\<^sup>2 / (na\<^sup>2 * (na - 1)) + vb\<^sup>2 / (nb\<^sup>2 * (nb - 1));
                   df = (if df_den > 0 then df_num / df_den else na + nb - 2);
                   tcrit = t_ppf S 0.975 df;
                   ci_low = diff - tcrit * se;
                   ci_high = diff + tcrit * se;
                   p_value = ttest_ind S b a
               in Inr (diff, ci_low, ci_high, p_value))"

text \<open>
  The Welch--Satterthwaite degrees of freedom as the specification words them, for the
  comparison with the two call sites.
\<close>

definition welch_satterthwaite_df :: "real \<Rightarrow> real \<Rightarrow> real \<Rightarrow> real \<Rightarrow> real" where
  "welch_satterthwaite_df va na vb nb =
     (if va\<^sup>2 / (na\<^sup>2 * (na - 1)) + vb\<^sup>2 / (nb\<^sup>2 * (nb - 1)) \<le> 0 then na + nb - 2
      else (va / na + vb / nb)\<^sup>2 / (va\<^sup>2 / (na\<^sup>2 * (na - 1)) + vb\<^sup>2 / (nb\<^sup>2 * (nb - 1))))"

subsection \<open>CUPED adjustment (\<open>cuped.main\<close>)\<close>

text \<open>
  The numeric part of \<open>main\<close> on the two columns \<open>y\<close> (\<open>y_rev\<close>) and \<open>x\<close> (\<open>x_pre_rev\<close>):
  \<open>theta\<close>, the adjusted column and the variance reduction, returned in this order.

  The guard of \<open>theta\<close> is on the computed variance of \<open>x\<close>. Over the reals a constant
  column has variance 0. In doubles the mean of a constant column need not be the constant
  (the mean of three times \<open>0.1\<close> is \<open>0.10000000000000002\<close>); the computed variance is then
  a positive number of the order of \<open>1e-34\<close>, the guard does not apply and \<open>theta\<close> is the
  quotient of two rounding errors. The properties of this function are therefore stated
  without reference to which side of the guard a column of variance 0 takes.
\<close>

definition cuped_core :: "real list \<Rightarrow> real list \<Rightarrow> pyerror + (real \<times> real list \<times> real)" where
  "cuped_core y x =
     (let x_mean = np_mean x
      in case np_cov y x of
           Inl e \<Rightarrow> Inl e
         | Inr cov_yx \<Rightarrow>
             let var_x = np_var x;
                 theta = (if var_x > 0 then cov_yx / var_x else 0);
                 y_cuped = map2 (\<lambda>yi xi. yi - theta * (xi - x_mean)) y x;
                 var_raw = np_var y;
                 var_cup = np_var y_cuped;
                 var_red = (if var_raw > 0 then 1 - var_cup / var_raw else 0)
             in Inr (theta, y_cuped, var_red))"

text \<open>
  One row of the user-level frame that \<open>main\<close> fetches, and what \<open>main\<close> reports: the
  adjustment, then the Welch comparison of control against treatment on the raw and on the
  adjusted column.
\<close>

record user_row =
  u_variant :: string
  y_rev :: real
  x_pre_rev :: real

record cuped_report =
  theta :: real
  var_red :: real
  raw_stats :: "real \<times> real \<times> real \<times> real"
  cuped_stats :: "real \<times> real \<times> real \<times> real"

definition cuped_main :: "student_t \<Rightarrow> user_row list \<Rightarrow> pyerror + cuped_report" where
  "cuped_main S df =
     (let x = map x_pre_rev df;
          y = map y_rev df
      in case cuped_core y x of
           Inl e \<Rightarrow> Inl e
         | Inr (th, y_cuped, vr) \<Rightarrow>
             let rows = zip df y_cuped;
                 c = filter (\<lambda>(r, v). u_variant r = ''control'') rows;
                 t = filter (\<lambda>(r, v). u_variant r = ''treatment'') rows;
                 raw_c = map (\<lambda>(r, v). y_rev r) c;
                 raw_t = map (\<lambda>(r, v). y_rev r) t;
                 cup_c = map snd c;
                 cup_t = map snd t
             in case welch_ttest_ci S raw_c raw_t of
                  Inl e \<Rightarrow> Inl e
                | Inr raw \<Rightarrow>
                    (case welch_ttest_ci S cup_c cup_t of
                       Inl e \<Rightarrow> Inl e
                     | Inr cup \<Rightarrow>
                         Inr \<lparr>theta = th, var_red = vr, raw_stats = raw, cuped_stats = cup\<rparr>))"

subsection \<open>SRM checker (\<open>srm_guardrails.srm_test\<close>)\<close>

text \<open>
  \<open>scipy.stats.chisquare\<close> on two categories. The library first compares the two totals and
  raises when \<open>|\<Sum>obs - \<Sum>exp| / min (\<Sum>obs) (\<Sum>exp)\<close> exceeds a relative tolerance, the square
  root of the machine epsilon, \<open>2\<^sup>-\<^sup>2\<^sup>6\<close> (\<open>1e-8\<close> in older versions); a quotient \<open>0 / 0\<close> is NaN
  and compares false, and a zero minimum is taken to be the positive zero. In \<open>srm_test\<close>
  the two totals are equal over the reals and within a few units of rounding in doubles,
  so that the test passes. The statistic is \<open>\<Sum> (obs - exp)\<^sup>2 / exp\<close> in floating point: a term
  with a zero expected count is NaN when the observed count is zero too, and otherwise an
  infinity with the sign of that zero. The p-value is the upper tail of the chi-square
  distribution with one degree of freedom, \<open>P(Z\<^sup>2 > x) = 2 P(Z > sqrt x)\<close> for a standard normal
  \<open>Z\<close>; it is 1 at and below zero, 0 at infinity and NaN at NaN.

  An expected count is given with a flag that tells whether, when the count is zero, it is
  the negative zero.
\<close>

definition chi2_sf_1 :: "real \<Rightarrow> real" where
  "chi2_sf_1 x = (if x \<le> 0 then 1 else 2 * norm_sf (sqrt x))"

fun chi2_sf :: "pyfloat \<Rightarrow> pyfloat" where
  "chi2_sf NaN = NaN"
| "chi2_sf PInf = Fin 0"
| "chi2_sf NInf = Fin 1"
| "chi2_sf (Fin x) = Fin (chi2_sf_1 x)"

fun float_add :: "pyfloat \<Rightarrow> pyfloat \<Rightarrow> pyfloat" where
  "float_add (Fin a) (Fin b) = Fin (a + b)"
| "float_add NaN b = NaN"
| "float_add a NaN = NaN"
| "float_add PInf NInf = NaN"
| "float_add NInf PInf = NaN"
| "float_add PInf b = PInf"
| "float_add a PInf = PInf"
| "float_add NInf b = NInf"
| "float_add a NInf = NInf"

definition chisquare_term :: "real \<Rightarrow> real \<times> bool \<Rightarrow> pyfloat" where
  "chisquare_term ob ex =
     (case ex of
        (e, neg) \<Rightarrow>
          if e \<noteq> 0 then Fin ((ob - e)\<^sup>2 / e)
          else if ob = 0 then NaN
          else if neg then NInf
          else PInf)"

definition chisquare_rtol :: real where
  "chisquare_rtol = 1 / 2 ^ 26"

definition stats_chisquare ::
  "real \<times> real \<Rightarrow> (real \<times> bool) \<times> (real \<times> bool) \<Rightarrow> pyerror + (pyfloat \<times> pyfloat)" where
  "stats_chisquare f_obs f_exp =
     (case (f_obs, f_exp) of
        ((o1, o2), (e1, e2)) \<Rightarrow>
          let f_obs_sum = o1 + o2;
              f_exp_sum = fst e1 + fst e2;
              m = min f_obs_sum f_exp_sum
          in if (if m = 0 then f_obs_sum \<noteq> f_exp_sum
                 else \<bar>f_obs_sum - f_exp_sum\<bar> / m > chisquare_rtol)
             then Inl (ValueError ''the sum of the observed frequencies must agree with the sum of the expected frequencies'')
             else
               let stat = float_add (chisquare_term o1 e1) (chisquare_term o2 e2)
               in Inr (stat, chi2_sf stat))"

record SRMResult =
  level :: string
  n_control :: int
  n_treatment :: int
  expected_share_treatment :: real
  chi2 :: pyfloat
  p_value :: pyfloat

text \<open>
  The product \<open>total * f\<close> of the integer \<open>total\<close> (the argument \<open>n\<close>) and a float \<open>f\<close> whose
  zero is the positive one, as \<open>expected_share_treatment\<close> and
  \<open>1.0 - expected_share_treatment\<close> are taken to be: a zero product is the negative zero
  when exactly one factor is negative.
\<close>

definition total_times :: "int \<Rightarrow> real \<Rightarrow> real \<times> bool" where
  "total_times n f = (real_of_int n * f, (n < 0) \<noteq> (f < 0))"

definition srm_test :: "int \<Rightarrow> int \<Rightarrow> real \<Rightarrow> pyerror + SRMResult" where
  "srm_test n_c n_t share =
     (let total = n_c + n_t;
          exp_t = total_times total share;
          exp_c = total_times total (1 - share)
      in case stats_chisquare (real_of_int n_c, real_of_int n_t) (exp_c, exp_t) of
           Inl e \<Rightarrow> Inl e
         | Inr (stat, p) \<Rightarrow>
             Inr \<lparr>level = ''count'', n_control = n_c, n_treatment = n_t,
                  expected_share_treatment = share, chi2 = stat, p_value = p\<rparr>)"

subsection \<open>Result records and display formatting (\<open>ab_readout\<close>)\<close>

text \<open>
  A cell of a pandas frame holds a Python object: here a float or a string. One record type
  serves the dataclass \<open>MetricResult\<close> (float cells) and the rows of the display frame
  (object cells).
\<close>

datatype pyobj = PyFloat pyfloat | PyStr string

record 'v metric_row =
  metric :: string
  control :: 'v
  treatment :: 'v
  abs_diff :: 'v
  rel_diff :: 'v
  ci_low :: 'v
  ci_high :: 'v
  p_value :: 'v

type_synonym MetricResult = "pyfloat metric_row"

type_synonym display_row = "pyobj metric_row"

text \<open>
  Fixed-point formatting \<open>f"{x:.df}"\<close> with \<open>d > 0\<close> digits: the value is rounded to \<open>d\<close>
  decimals, ties to even, and printed with its sign, its integer part, a point and exactly
  \<open>d\<close> fraction digits. NaN prints as \<open>nan\<close>, an infinity as \<open>inf\<close>. Python rounds the exact
  binary value of the double in this way; the digits printed here are those of the real
  number that the model computes, which can differ from the double's in the last digit
  when that real number is at or next to a decimal tie (the product \<open>x * 100\<close> in \<open>pct\<close>
  and \<open>rel\<close> is exact here and rounded in Python).
\<close>

definition round_half_even :: "real \<Rightarrow> int" where
  "round_half_even r =
     (let f = \<lfloor>r\<rfloor>; d = r - of_int f
      in if d < 1 / 2 then f else if 1 / 2 < d then f + 1 else if even f then f else f + 1)"

definition digit_char :: "nat \<Rightarrow> char" where
  "digit_char n = ''0123456789'' ! n"

fun digits_of :: "nat \<Rightarrow> string" where
  "digits_of n = (if n < 10 then [digit_char n] else digits_of (n div 10) @ [digit_char (n mod 10)])"

declare digits_of.simps [simp del]

definition fixed_body :: "nat \<Rightarrow> nat \<Rightarrow> string" where
  "fixed_body d q =
     (let fs = digits_of (q mod 10 ^ d)
      in digits_of (q div 10 ^ d) @ ''.'' @ replicate (d - length fs) CHR ''0'' @ fs)"

definition format_fixed :: "nat \<Rightarrow> real \<Rightarrow> string" where
  "format_fixed d x =
     (let q = nat (round_half_even (\<bar>x\<bar> * 10 ^ d))
      in (if x < 0 then ''-'' else []) @ fixed_body d q)"

fun format_f :: "nat \<Rightarrow> pyfloat \<Rightarrow> string" where
  "format_f d NaN = ''nan''"
| "format_f d PInf = ''inf''"
| "format_f d NInf = ''-inf''"
| "format_f d (Fin x) = format_fixed d x"

fun times100 :: "pyfloat \<Rightarrow> pyfloat" where
  "times100 NaN = NaN"
| "times100 PInf = PInf"
| "times100 NInf = NInf"
| "times100 (Fin x) = Fin (x * 100)"

text \<open>The three local formatters of \<open>run_readout\<close>, and \<open>pd.notnull\<close> on a float.\<close>

definition pct :: "pyfloat \<Rightarrow> pyobj" where
  "pct x = PyStr (format_f 3 (times100 x) @ ''%'')"

definition rel :: "pyfloat \<Rightarrow> pyobj" where
  "rel x = PyStr (format_f 2 (times100 x) @ ''%'')"

definition num :: "pyfloat \<Rightarrow> pyobj" where
  "num x = PyStr (format_f 4 x)"

definition notnull :: "pyfloat \<Rightarrow> bool" where
  "notnull x \<longleftrightarrow> x \<noteq> NaN"

text \<open>One iteration of the loop that builds the display rows.\<close>

definition display_of :: "MetricResult \<Rightarrow> display_row" where
  "display_of r =
     (if metric r \<in> {''purchase_rate_per_session'', ''ctr'', ''atc_rate'', ''purchase_rate_given_atc''}
      then \<lparr>metric = metric r,
             control = pct (control r),
             treatment = pct (treatment r),
             abs_diff = pct (abs_diff r),
             rel_diff = (if notnull (rel_diff r) then rel (rel_diff r) else PyStr ''NA''),
             ci_low = pct (ci_low r),
             ci_high = pct (ci_high r),
             p_value = num (p_value r)\<rparr>
      else \<lparr>metric = metric r,
             control = num (control r),
             treatment = num (treatment r),
             abs_diff = num (abs_diff r),
             rel_diff = (if notnull (rel_diff r) then rel (rel_diff r) else PyStr ''NA''),
             ci_low = num (ci_low r),
             ci_high = num (ci_high r),
             p_value = num (p_value r)\<rparr>)"

subsection \<open>Readout orchestrator (\<open>ab_readout.run_readout\<close>)\<close>

text \<open>A row of \<open>fact_sessions\<close>; the indicator columns are integers.\<close>

record session_row =
  experiment_id :: string
  is_experiment_period :: bool
  variant :: string
  has_impression :: int
  has_click :: int
  has_add_to_cart :: int
  has_purchase :: int
  revenue :: real

text \<open>The \<open>MetricResult\<close> built from the tuple a proportion test returns.\<close>

definition proportion_result ::
  "string \<Rightarrow> real \<times> real \<times> real \<times> (real \<times> real) \<times> real \<Rightarrow> MetricResult" where
  "proportion_result name r =
     (case r of (p1, p2, diff, (lo, hi), pval) \<Rightarrow>
        \<lparr>metric = name,
         control = Fin p1,
         treatment = Fin p2,
         abs_diff = Fin diff,
         rel_diff = (if p1 > 0 then Fin (diff / p1) else NaN),
         ci_low = Fin lo,
         ci_high = Fin hi,
         p_value = Fin pval\<rparr>)"

text \<open>\<open>float(np.mean(series))\<close>: NaN on an empty series.\<close>

definition series_mean :: "real list \<Rightarrow> pyfloat" where
  "series_mean xs = (if xs = [] then NaN else Fin (np_mean xs))"

definition revenue_result ::
  "real list \<Rightarrow> real list \<Rightarrow> real \<times> (real \<times> real) \<times> real \<Rightarrow> MetricResult" where
  "revenue_result c_rev t_rev r =
     (case r of (diff, (lo, hi), pval) \<Rightarrow>
        \<lparr>metric = ''revenue_per_session'',
         control = series_mean c_rev,
         treatment = series_mean t_rev,
         abs_diff = Fin diff,
         rel_diff = (case series_mean c_rev of
                       Fin m \<Rightarrow> if m > 0 then Fin (diff / m) else NaN
                     | _ \<Rightarrow> NaN),
         ci_low = Fin lo,
         ci_high = Fin hi,
         p_value = Fin pval\<rparr>)"

text \<open>\<open>int(frame[col].sum())\<close> on an integer column.\<close>

definition column_sum :: "(session_row \<Rightarrow> int) \<Rightarrow> session_row list \<Rightarrow> int" where
  "column_sum col rows = sum_list (map col rows)"

text \<open>
  The values of the dictionary \<open>out\<close>, in insertion order, for the frame \<open>df\<close> that the
  query returned. Any exception of a comparator leaves the function.
\<close>

definition readout_metrics :: "student_t \<Rightarrow> session_row list \<Rightarrow> pyerror + MetricResult list" where
  "readout_metrics S df =
     (let c = filter (\<lambda>r. variant r = ''control'') df;
          t = filter (\<lambda>r. variant r = ''treatment'') df;
          n_c = int (length c);
          n_t = int (length t);
          x_c = column_sum has_purchase c;
          x_t = column_sum has_purchase t
      in case two_proportion_ztest x_c n_c x_t n_t of
           Inl e \<Rightarrow> Inl e
         | Inr r1 \<Rightarrow>
             let imp_c = column_sum has_impression c;
                 imp_t = column_sum has_impression t;
                 clk_c = column_sum has_click c;
                 clk_t = column_sum has_click t
             in case two_proportion_ztest clk_c imp_c clk_t imp_t of
                  Inl e \<Rightarrow> Inl e
                | Inr r2 \<Rightarrow>
                    let atc_c = column_sum has_add_to_cart c;
                        atc_t = column_sum has_add_to_cart t
                    in case two_proportion_ztest atc_c clk_c atc_t clk_t of
                         Inl e \<Rightarrow> Inl e
                       | Inr r3 \<Rightarrow>
                           (case two_proportion_ztest x_c atc_c x_t atc_t of
                              Inl e \<Rightarrow> Inl e
                            | Inr r4 \<Rightarrow>
                                (case two_sample_ttest S (map revenue c) (map revenue t) of
                                   Inl e \<Rightarrow> Inl e
                                 | Inr r5 \<Rightarrow>
                                     Inr [proportion_result ''purchase_rate_per_session'' r1,
                                          proportion_result ''ctr'' r2,
                                          proportion_result ''atc_rate'' r3,
                                          proportion_result ''purchase_rate_given_atc'' r4,
                                          revenue_result (map revenue c) (map revenue t) r5])))"

text \<open>
  \<open>run_readout\<close> on the table \<open>fact_sessions\<close>: the query keeps the experiment-period rows of
  the experiment; an empty frame raises; otherwise the metrics are computed, every row is
  turned into display strings, and the display frame is returned sorted by metric name.
\<close>

definition run_readout :: "student_t \<Rightarrow> session_row list \<Rightarrow> string \<Rightarrow> pyerror + display_row list" where
  "run_readout S fact_sessions exp_id =
     (let df = filter (\<lambda>r. experiment_id r = exp_id \<and> is_experiment_period r) fact_sessions
      in if df = []
         then Inl (ValueError ''No experiment-period sessions found. Check experiment_id or data.'')
         else case readout_metrics S df of
                Inl e \<Rightarrow> Inl e
              | Inr res \<Rightarrow> Inr (sort_key metric (map display_of res)))"

subsection \<open>The decision rule of the report (\<open>generate_report.main\<close>)\<close>

text \<open>
  \<open>float(s)\<close> on a string, for the strings the formatters produce: an optional minus sign,
  digits with at most one point and at least one digit, or \<open>nan\<close>, or \<open>inf\<close>. Anything else
  is answered with \<open>ValueError\<close>; the exponent forms, capital letters, underscores and
  surrounding blanks that Python also accepts are outside this model. The value is the
  decimal number itself, where Python takes the double nearest to it.
\<close>

definition is_digit :: "char \<Rightarrow> bool" where
  "is_digit ch \<longleftrightarrow> (48::nat) \<le> of_char ch \<and> of_char ch \<le> (57::nat)"

definition nat_of_digits :: "string \<Rightarrow> nat" where
  "nat_of_digits s = foldl (\<lambda>a ch. 10 * a + (of_char ch - 48)) 0 s"

definition parse_decimal :: "string \<Rightarrow> real option" where
  "parse_decimal s =
     (let ip = takeWhile (\<lambda>ch. ch \<noteq> CHR ''.'') s;
          fp = drop 1 (dropWhile (\<lambda>ch. ch \<noteq> CHR ''.'') s)
      in if (ip = [] \<and> fp = []) \<or> \<not> list_all is_digit ip \<or> \<not> list_all is_digit fp then None
         else Some (real (nat_of_digits ip) + real (nat_of_digits fp) / 10 ^ length fp))"

definition float_of_string :: "string \<Rightarrow> pyerror + pyfloat" where
  "float_of_string s =
     (if s = ''nan'' \<or> s = ''-nan'' then Inr NaN
      else if s = ''inf'' then Inr PInf
      else if s = ''-inf'' then Inr NInf
      else case (case s of ch # rest \<Rightarrow> if ch = CHR ''-'' then (- 1, rest) else (1, s) | [] \<Rightarrow> (1, s)) of
             (sign, body) \<Rightarrow>
               (case parse_decimal body of
                  None \<Rightarrow> Inl (ValueError ''could not convert string to float'')
                | Some v \<Rightarrow> Inr (Fin (sign * v))))"

text \<open>\<open>float(v)\<close> on a cell: a float is returned as it is, a string is parsed.\<close>

fun py_float :: "pyobj \<Rightarrow> pyerror + pyfloat" where
  "py_float (PyFloat f) = Inr f"
| "py_float (PyStr s) = float_of_string s"

text \<open>
  \<open>float(str(v).replace("%", ""))\<close> on a cell. For a float \<open>v\<close>, \<open>str\<close> gives its shortest
  representation, which holds no percent sign and which \<open>float\<close> reads back as \<open>v\<close>.
\<close>

fun py_float_without_percent :: "pyobj \<Rightarrow> pyerror + pyfloat" where
  "py_float_without_percent (PyFloat f) = Inr f"
| "py_float_without_percent (PyStr s) = float_of_string (filter (\<lambda>ch. ch \<noteq> CHR ''%'') s)"

fun div100 :: "pyfloat \<Rightarrow> pyfloat" where
  "div100 NaN = NaN"
| "div100 PInf = PInf"
| "div100 NInf = NInf"
| "div100 (Fin x) = Fin (x / 100)"

text \<open>Comparison of a float with a constant; every comparison with NaN is false.\<close>

fun float_lt :: "pyfloat \<Rightarrow> real \<Rightarrow> bool" where
  "float_lt NaN c = False"
| "float_lt PInf c = False"
| "float_lt NInf c = True"
| "float_lt (Fin x) c = (x < c)"

fun float_gt :: "pyfloat \<Rightarrow> real \<Rightarrow> bool" where
  "float_gt NaN c = False"
| "float_gt PInf c = True"
| "float_gt NInf c = False"
| "float_gt (Fin x) c = (x > c)"

text \<open>
  The decision rule applied to the frame that \<open>run_readout\<close> returned: the row of the primary
  metric (\<open>.iloc[0]\<close> raises \<open>IndexError\<close> when there is none), \<open>pval_primary\<close>,
  \<open>abs_diff_num\<close> and \<open>ship\<close>, returned in this order.
\<close>

definition decision_rule :: "display_row list \<Rightarrow> pyerror + (pyfloat \<times> pyfloat \<times> bool)" where
  "decision_rule readout =
     (case filter (\<lambda>r. metric r = ''purchase_rate_per_session'') readout of
        [] \<Rightarrow> Inl IndexError
      | primary # _ \<Rightarrow>
          (case py_float (p_value primary) of
             Inl e \<Rightarrow> Inl e
           | Inr pval_primary \<Rightarrow>
               (case py_float_without_percent (abs_diff primary) of
                  Inl e \<Rightarrow> Inl e
                | Inr v \<Rightarrow>
                    let abs_diff_num = div100 v;
                        ship = (float_lt pval_primary 0.05 \<and> float_gt abs_diff_num 0)
                    in Inr (pval_primary, abs_diff_num, ship))))"

text \<open>The part of \<open>generate_report.main\<close> that decides: the readout, then the rule.\<close>

definition generate_report_main ::
  "student_t \<Rightarrow> session_row list \<Rightarrow> string \<Rightarrow> pyerror + (pyfloat \<times> pyfloat \<times> bool)" where
  "generate_report_main S fact_sessions exp_id =
     (case run_readout S fact_sessions exp_id of
        Inl e \<Rightarrow> Inl e
      | Inr readout \<Rightarrow> decision_rule readout)"

subsection \<open>Example tables\<close>

text \<open>
  Small instances of \<open>fact_sessions\<close> for the experiment \<open>exp_checkout_v1\<close>, and an instance
  of the Student-t functions, on which the definitions above can be evaluated.
\<close>

definition session :: "bool \<Rightarrow> string \<Rightarrow> int \<Rightarrow> int \<Rightarrow> int \<Rightarrow> int \<Rightarrow> real \<Rightarrow> session_row" where
  "session period v imp clk atc pur amount =
     \<lparr>experiment_id = ''exp_checkout_v1'', is_experiment_period = period, variant = v,
      has_impression = imp, has_click = clk, has_add_to_cart = atc, has_purchase = pur,
      revenue = amount\<rparr>"

definition sessions_pre_period :: "session_row list" where
  "sessions_pre_period =
     [session False ''control'' 1 1 1 1 10, session False ''treatment'' 1 0 0 0 0]"


definition sessions_funnel :: "session_row list" where
  "sessions_funnel =
     [session True ''control'' 1 1 0 0 0, session True ''control'' 1 0 0 0 0,
      session True ''control'' 0 0 0 0 0,
      session True ''treatment'' 1 1 0 0 0, session True ''treatment'' 1 1 0 0 0]"

definition student_t_example :: student_t where
  "student_t_example = \<lparr>t_ppf = \<lambda>q df. 2, ttest_ind = \<lambda>b a. 1 / 2\<rparr>"





subsection \<open>The claim of raw floats, as a predicate\<close>



subsection \<open>What the display strings denote\<close>







section \<open>Properties\<close>

subsection \<open>The normal upper tail is well defined and small\<close>

lemma gauss_coeff_summable: "summable (\<lambda>n. gauss_coeff n * y ^ n)"
proof (rule summable_comparison_test)
  let ?g = "\<lambda>m. \<bar>y\<bar> * ((y\<^sup>2 / 2) ^ m /\<^sub>R fact m)"
  let ?b = "\<lambda>n. if even n then 0 else ?g ((n - 1) div 2)"
  have "?g sums (\<bar>y\<bar> * exp (y\<^sup>2 / 2))"
    by (intro sums_mult exp_converges)
  then have "?b sums (\<bar>y\<bar> * exp (y\<^sup>2 / 2))"
    by (rule sums_if')
  then show "summable ?b"
    by (rule sums_summable)
  have "norm (gauss_coeff n * y ^ n) \<le> ?b n" for n
  proof (cases "even n")
    case True
    then show ?thesis
      by (simp add: gauss_coeff_def)
  next
    case False
    then obtain m where n: "n = Suc (2 * m)"
      by (auto elim: oddE)
    have "norm (gauss_coeff n * y ^ n)
          = (1 / 2) ^ m * \<bar>y\<bar> ^ (2 * m) * \<bar>y\<bar> / (fact m * real (Suc (2 * m)))"
      by (simp add: n gauss_coeff_def abs_mult power_abs abs_divide power_divide)
    also have "\<dots> \<le> (1 / 2) ^ m * \<bar>y\<bar> ^ (2 * m) * \<bar>y\<bar> / (fact m * 1)"
      by (intro divide_left_mono mult_left_mono mult_nonneg_nonneg mult_pos_pos) simp_all
    also have "\<dots> = (1 / 2) ^ m * (y\<^sup>2) ^ m * \<bar>y\<bar> / fact m"
      by (simp add: power_mult)
    also have "\<dots> = ?g m"
      by (simp add: power_divide scaleR_conv_of_real field_simps)
    finally show ?thesis
      by (simp add: n)
  qed
  then show "\<exists>N. \<forall>n\<ge>N. norm (gauss_coeff n * y ^ n) \<le> ?b n"
    by blast
qed

lemma diffs_gauss_coeff:
  "diffs gauss_coeff n = (if even n then (- 1 / 2) ^ (n div 2) / fact (n div 2) else 0)"
  by (auto simp: diffs_def gauss_coeff_def elim!: evenE)

lemma diffs_gauss_series: "(\<Sum>n. diffs gauss_coeff n * x ^ n) = exp (- (x\<^sup>2) / 2)"
proof -
  let ?f = "\<lambda>m. (- (x\<^sup>2) / 2) ^ m /\<^sub>R fact m"
  have "(\<lambda>n. if even n then ?f (n div 2) else (\<lambda>m. 0) ((n - 1) div 2)) sums (0 + exp (- (x\<^sup>2) / 2))"
    by (rule sums_if [OF sums_zero exp_converges])
  moreover have "(if even n then ?f (n div 2) else 0) = diffs gauss_coeff n * x ^ n" for n
  proof (cases "even n")
    case True
    then obtain m where n: "n = 2 * m" by (auto elim: evenE)
    have "(- (x\<^sup>2) / 2) ^ m = (- 1 / 2) ^ m * (x\<^sup>2) ^ m"
      by (simp add: power_mult_distrib [symmetric])
    also have "(x\<^sup>2) ^ m = x ^ n"
      by (simp add: n power_mult)
    finally have "(- (x\<^sup>2) / 2) ^ m = (- 1 / 2) ^ m * x ^ n" .
    then show ?thesis
      using True by (simp add: diffs_gauss_coeff n scaleR_conv_of_real divide_simps)
  next
    case False
    then show ?thesis
      by (simp add: diffs_gauss_coeff)
  qed
  ultimately have "(\<lambda>n. diffs gauss_coeff n * x ^ n) sums exp (- (x\<^sup>2) / 2)"
    by simp
  then show ?thesis
    by (rule sums_unique [symmetric])
qed

lemma gauss_primitive_deriv:
  "(gauss_primitive has_real_derivative exp (- (x\<^sup>2) / 2)) (at x)"
proof -
  have "((\<lambda>x. \<Sum>n. gauss_coeff n * x ^ n) has_real_derivative (\<Sum>n. diffs gauss_coeff n * x ^ n)) (at x)"
    by (rule termdiffs_strong_converges_everywhere) (rule gauss_coeff_summable)
  then show ?thesis
    unfolding diffs_gauss_series gauss_primitive_def [abs_def] .
qed

lemma gauss_primitive_zero: "gauss_primitive 0 = 0"
  by (simp add: gauss_primitive_def gauss_coeff_def)

lemma gauss_primitive_deriv_eq:
  "d = exp (- (x\<^sup>2) / 2) \<Longrightarrow> (gauss_primitive has_real_derivative d) (at x)"
  using gauss_primitive_deriv [of x] by simp

lemma gauss_primitive_mono:
  assumes "x \<le> y"
  shows "gauss_primitive x \<le> gauss_primitive y"
proof (rule DERIV_nonneg_imp_nondecreasing [OF assms])
  fix z :: real
  have "(gauss_primitive has_real_derivative exp (- (z\<^sup>2) / 2)) (at z) \<and> 0 \<le> exp (- (z\<^sup>2) / 2)"
    using gauss_primitive_deriv [of z] by simp
  then show "\<exists>d. (gauss_primitive has_real_derivative d) (at z) \<and> 0 \<le> d"
    by (rule exI)
qed

lemma gauss_le_cauchy: "exp (- (x\<^sup>2) / 2) \<le> 2 / (1 + x\<^sup>2)" for x :: real
proof -
  have "(1 + x\<^sup>2) / 2 \<le> 1 + x\<^sup>2 / 2"
    by (simp add: field_simps)
  also have "\<dots> \<le> exp (x\<^sup>2 / 2)"
    by (rule exp_ge_add_one_self)
  finally have "(1 + x\<^sup>2) / 2 \<le> exp (x\<^sup>2 / 2)" .
  moreover have "0 < (1 + x\<^sup>2) / 2"
    by (simp add: add_pos_nonneg)
  ultimately have "inverse (exp (x\<^sup>2 / 2)) \<le> inverse ((1 + x\<^sup>2) / 2)"
    by (rule le_imp_inverse_le)
  then show ?thesis
    by (simp add: exp_minus inverse_eq_divide)
qed

lemma gauss_primitive_bound: "gauss_primitive x \<le> pi"
proof (cases "0 \<le> x")
  case True
  have "2 * arctan 0 - gauss_primitive 0 \<le> 2 * arctan x - gauss_primitive x"
  proof (rule DERIV_nonneg_imp_nondecreasing [OF True])
    fix z :: real
    have "((\<lambda>z. 2 * arctan z) has_real_derivative 2 * inverse (1 + z\<^sup>2)) (at z)"
      by (rule DERIV_cmult [OF DERIV_arctan])
    then have "((\<lambda>z. 2 * arctan z - gauss_primitive z) has_real_derivative
            (2 * inverse (1 + z\<^sup>2) - exp (- (z\<^sup>2) / 2))) (at z)"
      by (rule DERIV_diff [OF _ gauss_primitive_deriv])
    then have "((\<lambda>z. 2 * arctan z - gauss_primitive z) has_real_derivative
            (2 / (1 + z\<^sup>2) - exp (- (z\<^sup>2) / 2))) (at z)"
      by (simp only: divide_inverse)
    moreover have "0 \<le> 2 / (1 + z\<^sup>2) - exp (- (z\<^sup>2) / 2)"
      using gauss_le_cauchy [of z] by simp
    ultimately
    have "((\<lambda>z. 2 * arctan z - gauss_primitive z) has_real_derivative
            (2 / (1 + z\<^sup>2) - exp (- (z\<^sup>2) / 2))) (at z) \<and>
          0 \<le> 2 / (1 + z\<^sup>2) - exp (- (z\<^sup>2) / 2)"
      by simp
    then show "\<exists>d. ((\<lambda>z. 2 * arctan z - gauss_primitive z) has_real_derivative d) (at z) \<and> 0 \<le> d"
      by (rule exI)
  qed
  then have "gauss_primitive x \<le> 2 * arctan x"
    by (simp add: gauss_primitive_zero)
  also have "\<dots> \<le> pi"
    using arctan_ubound [of x] by simp
  finally show ?thesis .
next
  case False
  then have "gauss_primitive x \<le> gauss_primitive 0"
    by (intro gauss_primitive_mono) simp
  then have "gauss_primitive x \<le> 0"
    by (simp add: gauss_primitive_zero)
  also have "0 \<le> pi"
    by (rule pi_ge_zero)
  finally show ?thesis .
qed

lemma gauss_primitive_seq_limit: "\<exists>L. (\<lambda>n. gauss_primitive (real n)) \<longlonglongrightarrow> L"
proof -
  have "incseq (\<lambda>n. gauss_primitive (real n))"
    by (rule incseq_SucI) (simp add: gauss_primitive_mono)
  moreover have "\<forall>n. gauss_primitive (real n) \<le> pi"
    by (simp add: gauss_primitive_bound)
  ultimately obtain L where "(\<lambda>n. gauss_primitive (real n)) \<longlonglongrightarrow> L"
    by (rule incseq_convergent)
  then show ?thesis ..
qed

lemma gauss_primitive_limit: "\<exists>L. (gauss_primitive \<longlongrightarrow> L) at_top"
proof -
  obtain L where "(\<lambda>n. gauss_primitive (real n)) \<longlonglongrightarrow> L"
    using gauss_primitive_seq_limit by blast
  moreover have "mono gauss_primitive"
    by (rule monoI) (rule gauss_primitive_mono)
  ultimately have "(gauss_primitive \<longlongrightarrow> L) at_top"
    by (rule tendsto_at_topI_sequentially_real [rotated])
  then show ?thesis ..
qed

lemma is_norm_sf_exists: "\<exists>F. is_norm_sf F"
proof -
  obtain L where L: "(gauss_primitive \<longlongrightarrow> L) at_top"
    using gauss_primitive_limit by blast
  let ?F = "\<lambda>x. (L - gauss_primitive x) / sqrt (2 * pi)"
  have d: "(?F has_real_derivative - norm_pdf x) (at x)" for x
  proof -
    have "((\<lambda>x. L - gauss_primitive x) has_real_derivative (0 - exp (- (x\<^sup>2) / 2))) (at x)"
      by (rule DERIV_diff [OF DERIV_const gauss_primitive_deriv])
    then have "(?F has_real_derivative ((0 - exp (- (x\<^sup>2) / 2)) / sqrt (2 * pi))) (at x)"
      by (rule DERIV_cdivide)
    then show ?thesis
      by (simp add: norm_pdf_def)
  qed
  have "((\<lambda>x. L - gauss_primitive x) \<longlongrightarrow> L - L) at_top"
    by (rule tendsto_diff [OF tendsto_const L])
  then have "(?F \<longlongrightarrow> (L - L) / sqrt (2 * pi)) at_top"
    by (rule tendsto_divide [OF _ tendsto_const]) simp
  then have "(?F \<longlongrightarrow> 0) at_top"
    by simp
  with d have "is_norm_sf ?F"
    unfolding is_norm_sf_def by blast
  then show ?thesis
    by blast
qed

lemma is_norm_sf_unique:
  assumes "is_norm_sf F" "is_norm_sf G"
  shows "F = G"
proof
  fix x
  have dF: "(F has_real_derivative - norm_pdf z) (at z)"
    and dG: "(G has_real_derivative - norm_pdf z) (at z)" for z
    using assms by (simp_all add: is_norm_sf_def)
  have lF: "(F \<longlongrightarrow> 0) at_top" and lG: "(G \<longlongrightarrow> 0) at_top"
    using assms by (simp_all add: is_norm_sf_def)
  have d: "((\<lambda>z. F z - G z) has_real_derivative 0) (at z)" for z
    using DERIV_diff [OF dF dG, of z] by simp
  have "\<forall>z. ((\<lambda>z. F z - G z) has_real_derivative 0) (at z)"
    using d by blast
  then have "F z - G z = F x - G x" for z
    by (rule DERIV_isconst_all [of "\<lambda>z. F z - G z"])
  then have const: "(\<lambda>z. F z - G z) = (\<lambda>z. F x - G x)"
    by (intro ext)
  have "((\<lambda>z. F z - G z) \<longlongrightarrow> 0 - 0) at_top"
    by (rule tendsto_diff [OF lF lG])
  then have "((\<lambda>z::real. F x - G x) \<longlongrightarrow> 0) at_top"
    unfolding const by simp
  then have "F x - G x = 0"
    by (simp add: tendsto_const_iff)
  then show "F x = G x"
    by simp
qed

lemma is_norm_sf_norm_sf: "is_norm_sf norm_sf"
proof -
  have "\<exists>!F. is_norm_sf F"
    using is_norm_sf_exists is_norm_sf_unique by (rule ex_ex1I)
  then show ?thesis
    unfolding norm_sf_def by (rule theI')
qed

lemma norm_pdf_nonneg: "0 \<le> norm_pdf x"
  by (simp add: norm_pdf_def)

lemma norm_pdf_deriv: "(norm_pdf has_real_derivative - x * norm_pdf x) (at x)"
proof -
  have "((\<lambda>x. - (x\<^sup>2) / 2) has_real_derivative - x) (at x)"
    by (auto intro!: derivative_eq_intros)
  then have "((\<lambda>x. exp (- (x\<^sup>2) / 2)) has_real_derivative exp (- (x\<^sup>2) / 2) * (- x)) (at x)"
    by (rule DERIV_fun_exp)
  then have "((\<lambda>x. exp (- (x\<^sup>2) / 2) / sqrt (2 * pi)) has_real_derivative
      exp (- (x\<^sup>2) / 2) * (- x) / sqrt (2 * pi)) (at x)"
    by (rule DERIV_cdivide)
  then show ?thesis
    by (simp add: norm_pdf_def [abs_def] mult.commute)
qed

lemma norm_sf_tail:
  assumes "0 < a"
  shows "norm_sf a \<le> norm_pdf a / a"
proof -
  have dF: "(norm_sf has_real_derivative - norm_pdf z) (at z)" for z
    using is_norm_sf_norm_sf by (simp add: is_norm_sf_def)
  have lF: "(norm_sf \<longlongrightarrow> 0) at_top"
    using is_norm_sf_norm_sf by (simp add: is_norm_sf_def)
  let ?E = "\<lambda>x. norm_sf x - norm_pdf x / a"
  have step: "norm_sf a \<le> norm_pdf a / a + norm_sf y" if "a \<le> y" for y
  proof -
    have "?E a \<le> ?E y"
    proof (rule DERIV_nonneg_imp_nondecreasing [OF that])
      fix z :: real
      assume "a \<le> z"
      have "((\<lambda>x. norm_pdf x / a) has_real_derivative (- z * norm_pdf z) / a) (at z)"
        by (rule DERIV_cdivide [OF norm_pdf_deriv])
      then have "(?E has_real_derivative (- norm_pdf z - (- z * norm_pdf z) / a)) (at z)"
        by (rule DERIV_diff [OF dF])
      moreover have "0 \<le> - norm_pdf z - (- z * norm_pdf z) / a"
      proof -
        have "- norm_pdf z - (- z * norm_pdf z) / a = norm_pdf z * (z / a - 1)"
          by (simp add: algebra_simps)
        moreover have "0 \<le> z / a - 1"
          using \<open>a \<le> z\<close> assms by (simp add: field_simps)
        ultimately show ?thesis
          using norm_pdf_nonneg [of z] by simp
      qed
      ultimately
      have "(?E has_real_derivative (- norm_pdf z - (- z * norm_pdf z) / a)) (at z) \<and>
            0 \<le> - norm_pdf z - (- z * norm_pdf z) / a"
        by simp
      then show "\<exists>d. (?E has_real_derivative d) (at z) \<and> 0 \<le> d"
        by (rule exI)
    qed
    moreover have "0 \<le> norm_pdf y / a"
      using norm_pdf_nonneg [of y] assms by simp
    ultimately show ?thesis
      by simp
  qed
  have "((\<lambda>y. norm_pdf a / a + norm_sf y) \<longlongrightarrow> norm_pdf a / a + 0) at_top"
    by (rule tendsto_add [OF tendsto_const lF])
  moreover have "eventually (\<lambda>y. norm_sf a \<le> norm_pdf a / a + norm_sf y) at_top"
    unfolding eventually_at_top_linorder using step by blast
  ultimately have "norm_sf a \<le> norm_pdf a / a + 0"
    by (rule tendsto_lowerbound) simp
  then show ?thesis
    by simp
qed

lemma norm_sf_nonneg: "0 \<le> norm_sf a"
proof -
  have dF: "(norm_sf has_real_derivative - norm_pdf z) (at z)" for z
    using is_norm_sf_norm_sf by (simp add: is_norm_sf_def)
  have lF: "(norm_sf \<longlongrightarrow> 0) at_top"
    using is_norm_sf_norm_sf by (simp add: is_norm_sf_def)
  have step: "norm_sf y \<le> norm_sf a" if "a \<le> y" for y
  proof (rule DERIV_nonpos_imp_nonincreasing [OF that])
    fix z :: real
    assume "a \<le> z"
    have "(norm_sf has_real_derivative - norm_pdf z) (at z) \<and> - norm_pdf z \<le> 0"
      using dF [of z] norm_pdf_nonneg [of z] by simp
    then show "\<exists>d. (norm_sf has_real_derivative d) (at z) \<and> d \<le> 0"
      by (rule exI)
  qed
  have "eventually (\<lambda>y. norm_sf y \<le> norm_sf a) at_top"
    unfolding eventually_at_top_linorder using step by blast
  with lF show ?thesis
    by (rule tendsto_upperbound) simp
qed

subsection \<open>Proportion comparator\<close>

lemma ratio_in_unit:
  assumes "0 < n" "0 \<le> x" "x \<le> n"
  shows "0 \<le> real_of_int x / real_of_int n \<and> real_of_int x / real_of_int n \<le> 1"
  using assms by simp

lemma bernoulli_term_nonneg:
  fixes p n :: real
  assumes "0 \<le> p" "p \<le> 1" "0 < n"
  shows "0 \<le> p * (1 - p) / n"
  using assms by simp

lemma se_ci_arg_nonneg:
  assumes "0 < n1" "0 < n2" "0 \<le> x1" "x1 \<le> n1" "0 \<le> x2" "x2 \<le> n2"
  shows "0 \<le> se_ci_arg x1 n1 x2 n2"
proof -
  have "0 \<le> (real_of_int x1 / real_of_int n1) * (1 - real_of_int x1 / real_of_int n1) / real_of_int n1"
    using ratio_in_unit [of n1 x1] assms by (intro bernoulli_term_nonneg) simp_all
  moreover
  have "0 \<le> (real_of_int x2 / real_of_int n2) * (1 - real_of_int x2 / real_of_int n2) / real_of_int n2"
    using ratio_in_unit [of n2 x2] assms by (intro bernoulli_term_nonneg) simp_all
  ultimately show ?thesis
    by (simp add: se_ci_arg_def Let_def)
qed

lemma se_pooled_arg_nonneg:
  assumes "0 < n1" "0 < n2" "0 \<le> x1" "x1 \<le> n1" "0 \<le> x2" "x2 \<le> n2"
  shows "0 \<le> se_pooled_arg x1 n1 x2 n2"
proof -
  have pos: "0 < real_of_int (n1 + n2)"
    using assms by simp
  have lo: "0 \<le> real_of_int (x1 + x2) / real_of_int (n1 + n2)"
    using assms by (intro divide_nonneg_nonneg) simp_all
  have "real_of_int (x1 + x2) \<le> real_of_int (n1 + n2)"
    using assms by simp
  then have hi: "real_of_int (x1 + x2) / real_of_int (n1 + n2) \<le> 1"
    using pos by (simp add: divide_le_eq)
  have "0 \<le> 1 / real_of_int n1 + 1 / real_of_int n2"
    using assms by simp
  then show ?thesis
    unfolding se_pooled_arg_def Let_def
    using lo hi by (intro mult_nonneg_nonneg) simp_all
qed

lemma two_proportion_ztest_unfold:
  assumes "n1 \<noteq> 0" "n2 \<noteq> 0" "n1 + n2 \<noteq> 0"
    and "0 \<le> se_ci_arg x1 n1 x2 n2" "0 \<le> se_pooled_arg x1 n1 x2 n2"
  shows "two_proportion_ztest x1 n1 x2 n2 =
     Inr (real_of_int x1 / real_of_int n1,
          real_of_int x2 / real_of_int n2,
          real_of_int x2 / real_of_int n2 - real_of_int x1 / real_of_int n1,
          (real_of_int x2 / real_of_int n2 - real_of_int x1 / real_of_int n1
             - norm_ppf 0.975 * sqrt (se_ci_arg x1 n1 x2 n2),
           real_of_int x2 / real_of_int n2 - real_of_int x1 / real_of_int n1
             + norm_ppf 0.975 * sqrt (se_ci_arg x1 n1 x2 n2)),
          (if sqrt (se_pooled_arg x1 n1 x2 n2) = 0 then 1
           else 2 * (1 - norm_cdf \<bar>(real_of_int x2 / real_of_int n2 - real_of_int x1 / real_of_int n1)
                                    / sqrt (se_pooled_arg x1 n1 x2 n2)\<bar>)))"
  using assms
  by (simp add: two_proportion_ztest_def math_sqrt_def int_truediv_def Let_def)

text \<open>
  C4. For \<open>0 \<le> x1 \<le> n1\<close> and \<open>0 \<le> x2 \<le> n2\<close> the proportion comparator returns all zeros
  and p-value 1 when a group is empty; otherwise it returns \<open>p1 = x1/n1\<close>, \<open>p2 = x2/n2\<close>,
  \<open>diff = p2 - p1\<close>, the interval \<open>diff \<plusminus> z\<^sub>0\<^sub>.\<^sub>9\<^sub>7\<^sub>5 * se_ci\<close> with the unpooled standard error,
  and a p-value from the pooled standard error: 1 when that error is zero (in particular
  when there is no success in either arm), and \<open>2 (1 - \<Phi> |diff / se_pooled|)\<close> otherwise.
\<close>

theorem two_proportion_ztest_spec:
  assumes "0 \<le> x1" "x1 \<le> n1" "0 \<le> x2" "x2 \<le> n2"
  shows "two_proportion_ztest x1 n1 x2 n2 =
     (if n1 = 0 \<or> n2 = 0 then Inr (0, 0, 0, (0, 0), 1)
      else
        let p1 = real_of_int x1 / real_of_int n1;
            p2 = real_of_int x2 / real_of_int n2;
            diff = p2 - p1;
            se_ci = sqrt (p1 * (1 - p1) / real_of_int n1 + p2 * (1 - p2) / real_of_int n2);
            p_pool = real_of_int (x1 + x2) / real_of_int (n1 + n2);
            se_pooled = sqrt (p_pool * (1 - p_pool) * (1 / real_of_int n1 + 1 / real_of_int n2))
        in Inr (p1, p2, diff,
                (diff - norm_ppf 0.975 * se_ci, diff + norm_ppf 0.975 * se_ci),
                (if se_pooled = 0 \<or> (x1 = 0 \<and> x2 = 0) then 1
                 else 2 * (1 - norm_cdf \<bar>diff / se_pooled\<bar>))))"
proof (cases "n1 = 0 \<or> n2 = 0")
  case True
  then show ?thesis
    by (simp add: two_proportion_ztest_def)
next
  case False
  with assms have pos: "0 < n1" "0 < n2"
    by simp_all
  then have nz: "n1 \<noteq> 0" "n2 \<noteq> 0" "n1 + n2 \<noteq> 0"
    by simp_all
  have ci: "0 \<le> se_ci_arg x1 n1 x2 n2"
    using pos assms by (rule se_ci_arg_nonneg)
  have pooled: "0 \<le> se_pooled_arg x1 n1 x2 n2"
    using pos assms by (rule se_pooled_arg_nonneg)
  have zero: "sqrt (se_pooled_arg x1 n1 x2 n2) = 0" if "x1 = 0 \<and> x2 = 0"
    using that by (simp add: se_pooled_arg_def)
  show ?thesis
    unfolding two_proportion_ztest_unfold [OF nz ci pooled]
    using False zero
    by (auto simp: Let_def se_ci_arg_def se_pooled_arg_def)
qed

theorem two_proportion_ztest_spec_witness:
  "(0::int) \<le> 100 \<and> (100::int) \<le> 1000 \<and> (0::int) \<le> 120 \<and> (120::int) \<le> 1000 \<and>
   two_proportion_ztest 100 1000 120 1000 =
     Inr (1 / 10, 3 / 25, 1 / 50,
          (1 / 50 - norm_ppf 0.975 * sqrt (489 / 2500000),
           1 / 50 + norm_ppf 0.975 * sqrt (489 / 2500000)),
          2 * (1 - norm_cdf \<bar>(1 / 50) / sqrt (979 / 5000000)\<bar>))"
  using two_proportion_ztest_spec [of 100 1000 120 1000]
  by (simp add: Let_def)

text \<open>
  C10. With both groups non-empty and \<open>0 \<le> x \<le> n\<close> in each, the proportion comparator
  evaluates without arithmetic fault: both square-root arguments are non-negative, every
  divisor is non-zero, and a result is returned. The bound \<open>x \<le> n\<close> is needed: at
  \<open>x1 = 2, n1 = 1\<close> the unpooled square root receives a negative argument and the call raises.
\<close>

theorem two_proportion_ztest_no_fault:
  assumes "0 < n1" "0 < n2" "0 \<le> x1" "x1 \<le> n1" "0 \<le> x2" "x2 \<le> n2"
  shows "(0 \<le> se_ci_arg x1 n1 x2 n2 \<and> 0 \<le> se_pooled_arg x1 n1 x2 n2 \<and>
          n1 \<noteq> 0 \<and> n2 \<noteq> 0 \<and> n1 + n2 \<noteq> 0 \<and>
          (\<exists>r. two_proportion_ztest x1 n1 x2 n2 = Inr r)) \<and>
         ((1::int) < 2 \<and> se_ci_arg 2 1 0 1 < 0 \<and>
          two_proportion_ztest 2 1 0 1 = Inl (ValueError ''math domain error''))"
proof -
  have nz: "n1 \<noteq> 0" "n2 \<noteq> 0" "n1 + n2 \<noteq> 0"
    using assms by simp_all
  have ci: "0 \<le> se_ci_arg x1 n1 x2 n2"
    using assms by (rule se_ci_arg_nonneg)
  have pooled: "0 \<le> se_pooled_arg x1 n1 x2 n2"
    using assms by (rule se_pooled_arg_nonneg)
  have ok: "\<exists>r. two_proportion_ztest x1 n1 x2 n2 = Inr r"
    unfolding two_proportion_ztest_unfold [OF nz ci pooled] by blast
  have neg: "se_ci_arg 2 1 0 1 < 0"
    by (simp add: se_ci_arg_def)
  have raises: "two_proportion_ztest 2 1 0 1 = Inl (ValueError ''math domain error'')"
    using neg by (simp add: two_proportion_ztest_def math_sqrt_def)
  show ?thesis
    using nz ci pooled ok neg raises by simp
qed

theorem two_proportion_ztest_no_fault_witness:
  "(0::int) < 1000 \<and> (0::int) \<le> 100 \<and> (100::int) \<le> 1000 \<and> (0::int) \<le> 120 \<and> (120::int) \<le> 1000 \<and>
   0 \<le> se_ci_arg 100 1000 120 1000 \<and> 0 \<le> se_pooled_arg 100 1000 120 1000 \<and>
   (\<exists>r. two_proportion_ztest 100 1000 120 1000 = Inr r)"
  using two_proportion_ztest_no_fault [of 1000 1000 100 120]
  by simp

subsection \<open>Mean comparator\<close>

lemma np_var_nonneg: "0 \<le> np_var xs"
  unfolding np_var_def by (intro divide_nonneg_nonneg sum_list_nonneg) auto

lemma welch_se_arg_nonneg: "0 \<le> np_var a / real (length a) + np_var b / real (length b)"
  by (intro add_nonneg_nonneg divide_nonneg_nonneg np_var_nonneg) simp_all


text \<open>
  C3. With fewer than two observations in a sample, \<open>_two_sample_ttest\<close> returns
  \<open>diff = 0\<close>, the interval \<open>(0, 0)\<close> and p-value 1. \<open>welch_ttest_ci\<close> does not: on the
  samples \<open>[1]\<close> and \<open>[3, 5]\<close> it returns the difference of means 3 as \<open>diff\<close> and as both
  interval bounds.
\<close>

theorem welch_ttest_ci_degenerate_diverges:
  "two_sample_ttest S [1] [3, 5] = Inr (0, (0, 0), 1) \<and>
   welch_ttest_ci S [1] [3, 5] = Inr (3, 3, 3, 1)"
  by (simp add: two_sample_ttest_def welch_ttest_ci_def math_sqrt_def np_mean_def np_var_def Let_def)

lemma welch_df_eq:
  "(if va\<^sup>2 / (na\<^sup>2 * (na - 1)) + vb\<^sup>2 / (nb\<^sup>2 * (nb - 1)) > 0
    then (va / na + vb / nb)\<^sup>2 / (va\<^sup>2 / (na\<^sup>2 * (na - 1)) + vb\<^sup>2 / (nb\<^sup>2 * (nb - 1)))
    else na + nb - 2) = welch_satterthwaite_df va na vb nb"
  by (simp add: welch_satterthwaite_df_def not_less)

text \<open>
  C6. On two samples of at least two observations each with positive standard error,
  \<open>_two_sample_ttest\<close> and \<open>welch_ttest_ci\<close> return the same difference, the same interval
  bounds and the same p-value, both with the Welch--Satterthwaite degrees of freedom of the
  specification (fallback \<open>na + nb - 2\<close> when the denominator is not positive).
\<close>

theorem welch_call_sites_agree:
  assumes "2 \<le> length a" "2 \<le> length b"
    and "0 < sqrt (np_var a / real (length a) + np_var b / real (length b))"
  shows "let diff = np_mean b - np_mean a;
             se = sqrt (np_var a / real (length a) + np_var b / real (length b));
             df = welch_satterthwaite_df (np_var a) (real (length a)) (np_var b) (real (length b));
             lo = diff - t_ppf S 0.975 df * se;
             hi = diff + t_ppf S 0.975 df * se;
             p = ttest_ind S b a
         in two_sample_ttest S a b = Inr (diff, (lo, hi), p) \<and>
            welch_ttest_ci S a b = Inr (diff, lo, hi, p)"
proof -
  have arg: "\<not> np_var a / real (length a) + np_var b / real (length b) < 0"
    using welch_se_arg_nonneg [of a b] by simp
  have len: "\<not> length a < 2" "\<not> length b < 2"
    using assms by simp_all
  have se: "sqrt (np_var a / real (length a) + np_var b / real (length b)) \<noteq> 0"
    using assms(3) by simp
  have one: "two_sample_ttest S a b = Inr (np_mean b - np_mean a,
      (np_mean b - np_mean a - t_ppf S 0.975 (welch_satterthwaite_df (np_var a) (real (length a)) (np_var b) (real (length b)))
          * sqrt (np_var a / real (length a) + np_var b / real (length b)),
       np_mean b - np_mean a + t_ppf S 0.975 (welch_satterthwaite_df (np_var a) (real (length a)) (np_var b) (real (length b)))
          * sqrt (np_var a / real (length a) + np_var b / real (length b))),
      ttest_ind S b a)"
    unfolding two_sample_ttest_def Let_def math_sqrt_def welch_df_eq
    using arg len se by simp
  have two: "welch_ttest_ci S a b = Inr (np_mean b - np_mean a,
       np_mean b - np_mean a - t_ppf S 0.975 (welch_satterthwaite_df (np_var a) (real (length a)) (np_var b) (real (length b)))
          * sqrt (np_var a / real (length a) + np_var b / real (length b)),
       np_mean b - np_mean a + t_ppf S 0.975 (welch_satterthwaite_df (np_var a) (real (length a)) (np_var b) (real (length b)))
          * sqrt (np_var a / real (length a) + np_var b / real (length b)),
      ttest_ind S b a)"
    unfolding welch_ttest_ci_def Let_def math_sqrt_def welch_df_eq
    using arg len se by simp
  show ?thesis
    unfolding Let_def using one two by simp
qed

theorem welch_call_sites_agree_witness:
  "2 \<le> length [0, 2 :: real] \<and> 2 \<le> length [1, 5 :: real] \<and>
   0 < sqrt (np_var [0, 2] / real (length [0, 2 :: real]) + np_var [1, 5] / real (length [1, 5 :: real])) \<and>
   two_sample_ttest \<lparr>t_ppf = \<lambda>q df. 3, ttest_ind = \<lambda>b a. 1 / 2\<rparr> [0, 2] [1, 5] =
     Inr (2, (2 - 3 * sqrt 5, 2 + 3 * sqrt 5), 1 / 2) \<and>
   welch_ttest_ci \<lparr>t_ppf = \<lambda>q df. 3, ttest_ind = \<lambda>b a. 1 / 2\<rparr> [0, 2] [1, 5] =
     Inr (2, 2 - 3 * sqrt 5, 2 + 3 * sqrt 5, 1 / 2)"
  using welch_call_sites_agree [of "[0, 2]" "[1, 5]" "\<lparr>t_ppf = \<lambda>q df. 3, ttest_ind = \<lambda>b a. 1 / 2\<rparr>"]
  by (simp add: Let_def np_mean_def np_var_def power2_eq_square)

subsection \<open>CUPED\<close>


lemma map2_fst_id:
  "length y = length x \<Longrightarrow> map2 (\<lambda>yi xi. yi) y x = y"
  by (induction y x rule: list_induct2) simp_all

lemma sum_list_zip_nth:
  "length y = length x \<Longrightarrow>
   (\<Sum>(yi, xi)\<leftarrow>zip y x. f yi xi) = (\<Sum>i<length y. f (y ! i) (x ! i))"
proof (induction y x rule: list_induct2)
  case Nil
  then show ?case by simp
next
  case (Cons a ys b xs)
  have "(\<Sum>i<Suc (length ys). f ((a # ys) ! i) ((b # xs) ! i))
        = f a b + (\<Sum>i<length ys. f (ys ! i) (xs ! i))"
    by (simp add: sum.lessThan_Suc_shift del: sum.lessThan_Suc)
  with Cons show ?case by simp
qed

lemma map2_nth:
  "length y = length x \<Longrightarrow> map2 f y x = map (\<lambda>i. f (y ! i) (x ! i)) [0..<length y]"
  by (rule nth_equalityI) simp_all

lemma np_var_zero_dev:
  assumes "np_var x = 0" "2 \<le> length x" "i < length x"
  shows "x ! i - np_mean x = 0"
proof -
  have "real (length x - 1) \<noteq> 0"
    using assms(2) by simp
  then have "(\<Sum>v\<leftarrow>x. (v - np_mean x)\<^sup>2) = 0"
    using assms(1) by (simp add: np_var_def)
  then have "\<forall>v\<in>set x. (v - np_mean x)\<^sup>2 = 0"
    by (subst (asm) sum_list_nonneg_eq_0_iff) auto
  then show ?thesis
    using assms(3) by simp
qed

lemma cov_zero_of_var_zero:
  assumes "length y = length x" "np_var x = 0"
  shows "(\<Sum>i<length y. (y ! i - np_mean y) * (x ! i - np_mean x)) / real (length y - 1) = 0"
proof (cases "2 \<le> length x")
  case True
  have "(y ! i - np_mean y) * (x ! i - np_mean x) = 0" if "i < length y" for i
    using np_var_zero_dev [OF assms(2) True, of i] that assms(1) by simp
  then have "(\<Sum>i<length y. (y ! i - np_mean y) * (x ! i - np_mean x)) = 0"
    by (intro sum.neutral) simp
  then show ?thesis
    by simp
next
  case False
  then have "length y - 1 = 0"
    using assms(1) by simp
  then show ?thesis
    by simp
qed

text \<open>
  C8. On two columns of equal length the adjustment returns \<open>theta\<close>, the adjusted column
  and the variance reduction. \<open>theta\<close> solves \<open>theta * var(x) = cov(y, x)\<close>, both with divisor
  \<open>n - 1\<close>: it is the covariance over the variance whenever the variance is positive. The
  adjusted column is \<open>y - theta * (x - mean x)\<close> element by element. The variance reduction
  is \<open>1 - var(y_adjusted) / var(y)\<close> when \<open>var(y) > 0\<close> and 0 otherwise; it never exceeds 1,
  and it is 0 whenever \<open>theta = 0\<close>.
\<close>

theorem cuped_var_red_spec:
  assumes "length y = length x"
  shows "\<exists>th y_adj vr. cuped_core y x = Inr (th, y_adj, vr) \<and>
           th * np_var x =
             (\<Sum>i<length y. (y ! i - np_mean y) * (x ! i - np_mean x)) / real (length y - 1) \<and>
           y_adj = map (\<lambda>i. y ! i - th * (x ! i - np_mean x)) [0..<length y] \<and>
           vr = (if np_var y > 0 then 1 - np_var y_adj / np_var y else 0) \<and>
           vr \<le> 1 \<and> (th = 0 \<longrightarrow> vr = 0)"
proof -
  define cv where "cv = (\<Sum>i<length y. (y ! i - np_mean y) * (x ! i - np_mean x)) / real (length y - 1)"
  have c: "np_cov y x = Inr cv"
    using assms by (simp add: np_cov_def sum_list_zip_nth cv_def)
  define th where "th = (if np_var x > 0 then cv / np_var x else 0)"
  define y_adj where "y_adj = map2 (\<lambda>yi xi. yi - th * (xi - np_mean x)) y x"
  define vr where "vr = (if np_var y > 0 then 1 - np_var y_adj / np_var y else 0)"
  have core: "cuped_core y x = Inr (th, y_adj, vr)"
    unfolding cuped_core_def c Let_def th_def y_adj_def vr_def by simp
  have normal: "th * np_var x = cv"
  proof (cases "np_var x > 0")
    case True
    then show ?thesis
      by (simp add: th_def)
  next
    case False
    then have "np_var x = 0"
      using np_var_nonneg [of x] by simp
    then show ?thesis
      using cov_zero_of_var_zero [OF assms] by (simp add: th_def cv_def)
  qed
  have adj: "y_adj = map (\<lambda>i. y ! i - th * (x ! i - np_mean x)) [0..<length y]"
    unfolding y_adj_def using assms by (rule map2_nth)
  have "0 \<le> np_var y_adj / np_var y"
    by (intro divide_nonneg_nonneg np_var_nonneg)
  then have le: "vr \<le> 1"
    unfolding vr_def by simp
  have "y_adj = y" if "th = 0"
    using that assms unfolding y_adj_def by (simp add: map2_fst_id)
  then have z: "th = 0 \<longrightarrow> vr = 0"
    unfolding vr_def by simp
  show ?thesis
    using core le z vr_def adj normal [unfolded cv_def] by blast
qed

text \<open>
  Three inputs on which every intermediate value is a small dyadic number: a covariate that
  explains half of the variance, one that explains all of it, and a constant one.
\<close>

theorem cuped_var_red_spec_witness:
  "length [0, 2, 4, 6, 3 :: real] = length [0, 1, 2, 3, 4 :: real] \<and>
   cuped_core [0, 2, 4, 6, 3] [0, 1, 2, 3, 4] = Inr (1, [2, 3, 4, 5, 1], 1 / 2) \<and>
   np_var [0, 1, 2, 3, 4] = 5 / 2 \<and> np_var [0, 2, 4, 6, 3] = 5 \<and> np_var [2, 3, 4, 5, 1] = 5 / 2 \<and>
   length [1, 2, 3 :: real] = length [7, 7, 7 :: real] \<and>
   cuped_core [1, 2, 3] [1, 2, 3] = Inr (1, [2, 2, 2], 1) \<and>
   cuped_core [1, 2, 3] [7, 7, 7] = Inr (0, [1, 2, 3], 0)"
  using cuped_var_red_spec [of "[0, 2, 4, 6, 3]" "[0, 1, 2, 3, 4]"]
    cuped_var_red_spec [of "[1, 2, 3]" "[1, 2, 3]"]
    cuped_var_red_spec [of "[1, 2, 3]" "[7, 7, 7]"]
  by (simp add: cuped_core_def np_cov_def np_var_def np_mean_def power2_eq_square Let_def)

subsection \<open>Evaluating the formatters and the parser\<close>

lemma digits_of_small: "n < 10 \<Longrightarrow> digits_of n = [digit_char n]"
  by (simp add: digits_of.simps)

lemma digits_of_big: "\<not> n < 10 \<Longrightarrow> digits_of n = digits_of (n div 10) @ [digit_char (n mod 10)]"
  by (subst digits_of.simps) simp

lemma replicate_numeral_unfold: "replicate (numeral k) x = x # replicate (pred_numeral k) x"
  by (simp add: numeral_eq_Suc)

lemmas fmt_eval = replicate_numeral_unfold fixed_body_def format_fixed_def round_half_even_def Let_def digits_of_small digits_of_big
  digit_char_def pct_def rel_def num_def


subsection \<open>Readout orchestrator\<close>

lemma two_sample_ttest_returns: "\<exists>r. two_sample_ttest S a b = Inr r"
proof -
  have "\<not> np_var a / real (length a) + np_var b / real (length b) < 0"
    using welch_se_arg_nonneg [of a b] by simp
  then show ?thesis
    by (simp add: two_sample_ttest_def math_sqrt_def Let_def)
qed

lemma metric_display_of [simp]: "metric (display_of r) = metric r"
  by (simp add: display_of_def)

lemma metric_proportion_result [simp]: "metric (proportion_result name r) = name"
  by (simp add: proportion_result_def split: prod.splits)

lemma metric_revenue_result [simp]: "metric (revenue_result c t r) = ''revenue_per_session''"
  by (simp add: revenue_result_def split: prod.splits)

lemma sort_display_rows:
  assumes "metric a1 = ''purchase_rate_per_session''" "metric a2 = ''ctr''" "metric a3 = ''atc_rate''"
    "metric a4 = ''purchase_rate_given_atc''" "metric a5 = ''revenue_per_session''"
  shows "sort_key metric [a1, a2, a3, a4, a5] = [a3, a2, a4, a1, a5]"
  using assms by (simp add: less_eq_char_def less_char_def)

lemma readout_metrics_Inr:
  assumes "c = filter (\<lambda>r. variant r = ''control'') df" "t = filter (\<lambda>r. variant r = ''treatment'') df"
    and "two_proportion_ztest (column_sum has_purchase c) (int (length c))
           (column_sum has_purchase t) (int (length t)) = Inr r1"
    and "two_proportion_ztest (column_sum has_click c) (column_sum has_impression c)
           (column_sum has_click t) (column_sum has_impression t) = Inr r2"
    and "two_proportion_ztest (column_sum has_add_to_cart c) (column_sum has_click c)
           (column_sum has_add_to_cart t) (column_sum has_click t) = Inr r3"
    and "two_proportion_ztest (column_sum has_purchase c) (column_sum has_add_to_cart c)
           (column_sum has_purchase t) (column_sum has_add_to_cart t) = Inr r4"
    and "two_sample_ttest S (map revenue c) (map revenue t) = Inr r5"
  shows "readout_metrics S df =
           Inr [proportion_result ''purchase_rate_per_session'' r1,
                proportion_result ''ctr'' r2,
                proportion_result ''atc_rate'' r3,
                proportion_result ''purchase_rate_given_atc'' r4,
                revenue_result (map revenue c) (map revenue t) r5]"
  using assms(3-7) unfolding readout_metrics_def Let_def assms(1,2) [symmetric]
  by simp

lemma readout_metrics_cases:
  assumes "c = filter (\<lambda>r. variant r = ''control'') df" "t = filter (\<lambda>r. variant r = ''treatment'') df"
    and "readout_metrics S df = Inr res"
  shows "\<exists>r1 r2 r3 r4 r5.
       two_proportion_ztest (column_sum has_purchase c) (int (length c))
           (column_sum has_purchase t) (int (length t)) = Inr r1 \<and>
       two_proportion_ztest (column_sum has_click c) (column_sum has_impression c)
           (column_sum has_click t) (column_sum has_impression t) = Inr r2 \<and>
       two_proportion_ztest (column_sum has_add_to_cart c) (column_sum has_click c)
           (column_sum has_add_to_cart t) (column_sum has_click t) = Inr r3 \<and>
       two_proportion_ztest (column_sum has_purchase c) (column_sum has_add_to_cart c)
           (column_sum has_purchase t) (column_sum has_add_to_cart t) = Inr r4 \<and>
       two_sample_ttest S (map revenue c) (map revenue t) = Inr r5 \<and>
       res = [proportion_result ''purchase_rate_per_session'' r1,
                proportion_result ''ctr'' r2,
                proportion_result ''atc_rate'' r3,
                proportion_result ''purchase_rate_given_atc'' r4,
                revenue_result (map revenue c) (map revenue t) r5]"
  using assms(3) unfolding readout_metrics_def Let_def assms(1,2) [symmetric]
  by (auto split: sum.splits)

lemma run_readout_nonempty:
  assumes "df = filter (\<lambda>r. experiment_id r = exp_id \<and> is_experiment_period r) fact_sessions" "df \<noteq> []"
  shows "run_readout S fact_sessions exp_id =
           (case readout_metrics S df of Inl e \<Rightarrow> Inl e
            | Inr res \<Rightarrow> Inr (sort_key metric (map display_of res)))"
  using assms by (simp add: run_readout_def Let_def)

text \<open>
  C2. When no row of \<open>fact_sessions\<close> belongs to the experiment period of the experiment,
  \<open>run_readout\<close> raises (the \<open>ValueError\<close> of the source is the specification's
  \<open>NoDataError\<close>); it returns no table, and the exception reaches the caller
  \<open>generate_report.main\<close>.
\<close>

theorem run_readout_no_data:
  assumes "filter (\<lambda>r. experiment_id r = exp_id \<and> is_experiment_period r) fact_sessions = []"
  shows "run_readout S fact_sessions exp_id =
           Inl (ValueError ''No experiment-period sessions found. Check experiment_id or data.'') \<and>
         (\<forall>tab. run_readout S fact_sessions exp_id \<noteq> Inr tab) \<and>
         generate_report_main S fact_sessions exp_id =
           Inl (ValueError ''No experiment-period sessions found. Check experiment_id or data.'')"
  using assms by (simp add: run_readout_def generate_report_main_def)

theorem run_readout_no_data_witness:
  "filter (\<lambda>r. experiment_id r = ''exp_checkout_v1'' \<and> is_experiment_period r) sessions_pre_period = [] \<and>
   run_readout student_t_example sessions_pre_period ''exp_checkout_v1'' =
     Inl (ValueError ''No experiment-period sessions found. Check experiment_id or data.'') \<and>
   generate_report_main student_t_example sessions_pre_period ''exp_checkout_v1'' =
     Inl (ValueError ''No experiment-period sessions found. Check experiment_id or data.'')"
  using run_readout_no_data [of "''exp_checkout_v1''" sessions_pre_period student_t_example]
  by (simp add: sessions_pre_period_def session_def)

lemma run_readout_table:
  assumes "df = filter (\<lambda>r. experiment_id r = exp_id \<and> is_experiment_period r) fact_sessions"
    and "df \<noteq> []"
    and "c = filter (\<lambda>r. variant r = ''control'') df"
    and "t = filter (\<lambda>r. variant r = ''treatment'') df"
    and "run_readout S fact_sessions exp_id = Inr tab"
  shows "\<exists>r1 r2 r3 r4 r5.
       two_proportion_ztest (column_sum has_purchase c) (int (length c))
         (column_sum has_purchase t) (int (length t)) = Inr r1 \<and>
       two_proportion_ztest (column_sum has_click c) (column_sum has_impression c)
         (column_sum has_click t) (column_sum has_impression t) = Inr r2 \<and>
       two_proportion_ztest (column_sum has_add_to_cart c) (column_sum has_click c)
         (column_sum has_add_to_cart t) (column_sum has_click t) = Inr r3 \<and>
       two_proportion_ztest (column_sum has_purchase c) (column_sum has_add_to_cart c)
         (column_sum has_purchase t) (column_sum has_add_to_cart t) = Inr r4 \<and>
       two_sample_ttest S (map revenue c) (map revenue t) = Inr r5 \<and>
       tab = [display_of (proportion_result ''atc_rate'' r3),
              display_of (proportion_result ''ctr'' r2),
              display_of (proportion_result ''purchase_rate_given_atc'' r4),
              display_of (proportion_result ''purchase_rate_per_session'' r1),
              display_of (revenue_result (map revenue c) (map revenue t) r5)]"
proof -
  from assms(5) obtain res where res: "readout_metrics S df = Inr res"
    and tab: "tab = sort_key metric (map display_of res)"
    unfolding run_readout_nonempty [OF assms(1,2)] by (auto split: sum.splits)
  from readout_metrics_cases [OF assms(3,4) res] obtain r1 r2 r3 r4 r5 where
    z: "two_proportion_ztest (column_sum has_purchase c) (int (length c))
         (column_sum has_purchase t) (int (length t)) = Inr r1"
       "two_proportion_ztest (column_sum has_click c) (column_sum has_impression c)
         (column_sum has_click t) (column_sum has_impression t) = Inr r2"
       "two_proportion_ztest (column_sum has_add_to_cart c) (column_sum has_click c)
         (column_sum has_add_to_cart t) (column_sum has_click t) = Inr r3"
       "two_proportion_ztest (column_sum has_purchase c) (column_sum has_add_to_cart c)
         (column_sum has_purchase t) (column_sum has_add_to_cart t) = Inr r4"
       "two_sample_ttest S (map revenue c) (map revenue t) = Inr r5"
    and r: "res = [proportion_result ''purchase_rate_per_session'' r1,
                proportion_result ''ctr'' r2,
                proportion_result ''atc_rate'' r3,
                proportion_result ''purchase_rate_given_atc'' r4,
                revenue_result (map revenue c) (map revenue t) r5]"
    by blast
  have "tab = [display_of (proportion_result ''atc_rate'' r3),
              display_of (proportion_result ''ctr'' r2),
              display_of (proportion_result ''purchase_rate_given_atc'' r4),
              display_of (proportion_result ''purchase_rate_per_session'' r1),
              display_of (revenue_result (map revenue c) (map revenue t) r5)]"
    unfolding tab r list.map by (rule sort_display_rows) simp_all
  with z show ?thesis by blast
qed

lemma run_readout_returns:
  assumes "df = filter (\<lambda>r. experiment_id r = exp_id \<and> is_experiment_period r) fact_sessions"
    and "df \<noteq> []"
    and "c = filter (\<lambda>r. variant r = ''control'') df"
    and "t = filter (\<lambda>r. variant r = ''treatment'') df"
    and "two_proportion_ztest (column_sum has_purchase c) (int (length c))
         (column_sum has_purchase t) (int (length t)) = Inr r1"
    and "two_proportion_ztest (column_sum has_click c) (column_sum has_impression c)
         (column_sum has_click t) (column_sum has_impression t) = Inr r2"
    and "two_proportion_ztest (column_sum has_add_to_cart c) (column_sum has_click c)
         (column_sum has_add_to_cart t) (column_sum has_click t) = Inr r3"
    and "two_proportion_ztest (column_sum has_purchase c) (column_sum has_add_to_cart c)
         (column_sum has_purchase t) (column_sum has_add_to_cart t) = Inr r4"
  shows "\<exists>tab. run_readout S fact_sessions exp_id = Inr tab"
proof -
  obtain r5 where "two_sample_ttest S (map revenue c) (map revenue t) = Inr r5"
    using two_sample_ttest_returns by blast
  from readout_metrics_Inr [OF assms(3,4) assms(5-8) this] show ?thesis
    unfolding run_readout_nonempty [OF assms(1,2)] by simp
qed

text \<open>
  C9. On a non-empty observation set \<open>run_readout\<close> returns a table exactly when its four
  proportion tests return, and in that table the row \<open>ctr\<close> is the display of the test of the
  click counts against the impression counts of the two groups, the row \<open>atc_rate\<close> that of
  the add-to-cart counts against the click counts, and the row \<open>purchase_rate_given_atc\<close>
  that of the purchase counts against the add-to-cart counts.
\<close>

theorem run_readout_funnel_denominators:
  assumes "df = filter (\<lambda>r. experiment_id r = exp_id \<and> is_experiment_period r) fact_sessions"
    and "df \<noteq> []"
    and "c = filter (\<lambda>r. variant r = ''control'') df"
    and "t = filter (\<lambda>r. variant r = ''treatment'') df"
  shows "((\<exists>tab. run_readout S fact_sessions exp_id = Inr tab) \<longleftrightarrow>
            (\<exists>r1 r2 r3 r4.
               two_proportion_ztest (column_sum has_purchase c) (int (length c))
         (column_sum has_purchase t) (int (length t)) = Inr r1 \<and>
               two_proportion_ztest (column_sum has_click c) (column_sum has_impression c)
         (column_sum has_click t) (column_sum has_impression t) = Inr r2 \<and>
               two_proportion_ztest (column_sum has_add_to_cart c) (column_sum has_click c)
         (column_sum has_add_to_cart t) (column_sum has_click t) = Inr r3 \<and>
               two_proportion_ztest (column_sum has_purchase c) (column_sum has_add_to_cart c)
         (column_sum has_purchase t) (column_sum has_add_to_cart t) = Inr r4)) \<and>
         (\<forall>tab. run_readout S fact_sessions exp_id = Inr tab \<longrightarrow>
            (\<exists>r2 r3 r4.
               two_proportion_ztest (column_sum has_click c) (column_sum has_impression c)
         (column_sum has_click t) (column_sum has_impression t) = Inr r2 \<and>
               filter (\<lambda>r. metric r = ''ctr'') tab = [display_of (proportion_result ''ctr'' r2)] \<and>
               two_proportion_ztest (column_sum has_add_to_cart c) (column_sum has_click c)
         (column_sum has_add_to_cart t) (column_sum has_click t) = Inr r3 \<and>
               filter (\<lambda>r. metric r = ''atc_rate'') tab = [display_of (proportion_result ''atc_rate'' r3)] \<and>
               two_proportion_ztest (column_sum has_purchase c) (column_sum has_add_to_cart c)
         (column_sum has_purchase t) (column_sum has_add_to_cart t) = Inr r4 \<and>
               filter (\<lambda>r. metric r = ''purchase_rate_given_atc'') tab =
                 [display_of (proportion_result ''purchase_rate_given_atc'' r4)]))"
proof -
  have iff: "(\<exists>tab. run_readout S fact_sessions exp_id = Inr tab) \<longleftrightarrow>
            (\<exists>r1 r2 r3 r4.
               two_proportion_ztest (column_sum has_purchase c) (int (length c))
         (column_sum has_purchase t) (int (length t)) = Inr r1 \<and>
               two_proportion_ztest (column_sum has_click c) (column_sum has_impression c)
         (column_sum has_click t) (column_sum has_impression t) = Inr r2 \<and>
               two_proportion_ztest (column_sum has_add_to_cart c) (column_sum has_click c)
         (column_sum has_add_to_cart t) (column_sum has_click t) = Inr r3 \<and>
               two_proportion_ztest (column_sum has_purchase c) (column_sum has_add_to_cart c)
         (column_sum has_purchase t) (column_sum has_add_to_cart t) = Inr r4)"
    using run_readout_table [OF assms] run_readout_returns [OF assms] by blast
  have rows: "\<exists>r2 r3 r4.
               two_proportion_ztest (column_sum has_click c) (column_sum has_impression c)
         (column_sum has_click t) (column_sum has_impression t) = Inr r2 \<and>
               filter (\<lambda>r. metric r = ''ctr'') tab = [display_of (proportion_result ''ctr'' r2)] \<and>
               two_proportion_ztest (column_sum has_add_to_cart c) (column_sum has_click c)
         (column_sum has_add_to_cart t) (column_sum has_click t) = Inr r3 \<and>
               filter (\<lambda>r. metric r = ''atc_rate'') tab = [display_of (proportion_result ''atc_rate'' r3)] \<and>
               two_proportion_ztest (column_sum has_purchase c) (column_sum has_add_to_cart c)
         (column_sum has_purchase t) (column_sum has_add_to_cart t) = Inr r4 \<and>
               filter (\<lambda>r. metric r = ''purchase_rate_given_atc'') tab =
                 [display_of (proportion_result ''purchase_rate_given_atc'' r4)]"
    if "run_readout S fact_sessions exp_id = Inr tab" for tab
  proof -
    from run_readout_table [OF assms that] obtain r1 r2 r3 r4 r5 where
      z: "two_proportion_ztest (column_sum has_click c) (column_sum has_impression c)
         (column_sum has_click t) (column_sum has_impression t) = Inr r2"
       "two_proportion_ztest (column_sum has_add_to_cart c) (column_sum has_click c)
         (column_sum has_add_to_cart t) (column_sum has_click t) = Inr r3"
       "two_proportion_ztest (column_sum has_purchase c) (column_sum has_add_to_cart c)
         (column_sum has_purchase t) (column_sum has_add_to_cart t) = Inr r4"
      and tab: "tab = [display_of (proportion_result ''atc_rate'' r3),
              display_of (proportion_result ''ctr'' r2),
              display_of (proportion_result ''purchase_rate_given_atc'' r4),
              display_of (proportion_result ''purchase_rate_per_session'' r1),
              display_of (revenue_result (map revenue c) (map revenue t) r5)]"
      by blast
    have "filter (\<lambda>r. metric r = ''ctr'') tab = [display_of (proportion_result ''ctr'' r2)]"
      "filter (\<lambda>r. metric r = ''atc_rate'') tab = [display_of (proportion_result ''atc_rate'' r3)]"
      "filter (\<lambda>r. metric r = ''purchase_rate_given_atc'') tab =
                 [display_of (proportion_result ''purchase_rate_given_atc'' r4)]"
      unfolding tab by simp_all
    with z show ?thesis by blast
  qed
  show ?thesis
    using iff rows by blast
qed

lemma two_proportion_ztest_empty_group:
  "n1 = 0 \<or> n2 = 0 \<Longrightarrow> two_proportion_ztest x1 n1 x2 n2 = Inr (0, 0, 0, (0, 0), 1)"
  by (simp add: two_proportion_ztest_def)

lemma display_of_proportion_cells:
  assumes "name \<in> {''purchase_rate_per_session'', ''ctr'', ''atc_rate'', ''purchase_rate_given_atc''}"
  shows "control (display_of (proportion_result name (p1, p2, diff, (lo, hi), pval))) = pct (Fin p1)"
    and "treatment (display_of (proportion_result name (p1, p2, diff, (lo, hi), pval))) = pct (Fin p2)"
    and "abs_diff (display_of (proportion_result name (p1, p2, diff, (lo, hi), pval))) = pct (Fin diff)"
    and "p_value (display_of (proportion_result name (p1, p2, diff, (lo, hi), pval))) = num (Fin pval)"
  using assms unfolding display_of_def proportion_result_def by auto

theorem run_readout_funnel_denominators_witness:
  "filter (\<lambda>r. experiment_id r = ''exp_checkout_v1'' \<and> is_experiment_period r) sessions_funnel \<noteq> [] \<and>
   (\<exists>tab. run_readout student_t_example sessions_funnel ''exp_checkout_v1'' = Inr tab \<and>
      map control (filter (\<lambda>r. metric r = ''ctr'') tab) = [PyStr ''50.000%''])"
proof -
  define c where "c = [session True ''control'' 1 1 0 0 0, session True ''control'' 1 0 0 0 0,
      session True ''control'' 0 0 0 0 0]"
  define t where "t = [session True ''treatment'' 1 1 0 0 0, session True ''treatment'' 1 1 0 0 0]"
  have df: "sessions_funnel =
      filter (\<lambda>r. experiment_id r = ''exp_checkout_v1'' \<and> is_experiment_period r) sessions_funnel"
    by (simp add: sessions_funnel_def session_def)
  have ne: "sessions_funnel \<noteq> []"
    by (simp add: sessions_funnel_def)
  have c: "c = filter (\<lambda>r. variant r = ''control'') sessions_funnel"
    by (simp add: sessions_funnel_def session_def c_def)
  have t: "t = filter (\<lambda>r. variant r = ''treatment'') sessions_funnel"
    by (simp add: sessions_funnel_def session_def t_def)
  note inst = run_readout_funnel_denominators [OF df ne c t, of student_t_example]
  have counts: "column_sum has_purchase c = 0" "column_sum has_purchase t = 0"
    "column_sum has_click c = 1" "column_sum has_click t = 2"
    "column_sum has_impression c = 2" "column_sum has_impression t = 2"
    "column_sum has_add_to_cart c = 0" "column_sum has_add_to_cart t = 0"
    "int (length c) = 3" "int (length t) = 2"
    by (simp_all add: column_sum_def c_def t_def session_def)
  have z1: "two_proportion_ztest 0 3 0 2 = Inr (0, 0, 0, (0, 0), 1)"
    by (subst two_proportion_ztest_unfold) (simp_all add: se_ci_arg_def se_pooled_arg_def)
  have z2: "two_proportion_ztest 1 2 2 2 =
      Inr (1 / 2, 1, 1 / 2, (1 / 2 - norm_ppf 0.975 * sqrt (1 / 8), 1 / 2 + norm_ppf 0.975 * sqrt (1 / 8)),
           2 * (1 - norm_cdf \<bar>(1 / 2) / sqrt (3 / 16)\<bar>))"
    by (subst two_proportion_ztest_unfold) (simp_all add: se_ci_arg_def se_pooled_arg_def)
  have z3: "two_proportion_ztest 0 1 0 2 = Inr (0, 0, 0, (0, 0), 1)"
    by (subst two_proportion_ztest_unfold) (simp_all add: se_ci_arg_def se_pooled_arg_def)
  have z4: "two_proportion_ztest 0 0 0 0 = Inr (0, 0, 0, (0, 0), 1)"
    by (rule two_proportion_ztest_empty_group) simp
  from inst [unfolded counts] z1 z2 z3 z4
  obtain tab where tab: "run_readout student_t_example sessions_funnel ''exp_checkout_v1'' = Inr tab"
    by blast
  with inst [unfolded counts] z2
  have "filter (\<lambda>r. metric r = ''ctr'') tab =
      [display_of (proportion_result ''ctr''
        (1 / 2, 1, 1 / 2, (1 / 2 - norm_ppf 0.975 * sqrt (1 / 8), 1 / 2 + norm_ppf 0.975 * sqrt (1 / 8)),
           2 * (1 - norm_cdf \<bar>(1 / 2) / sqrt (3 / 16)\<bar>)))]"
    by auto
  then have "map control (filter (\<lambda>r. metric r = ''ctr'') tab) = [pct (Fin (1 / 2))]"
    by (simp add: display_of_proportion_cells)
  also have "pct (Fin (1 / 2)) = PyStr ''50.000%''"
    by (simp add: fmt_eval)
  finally have "map control (filter (\<lambda>r. metric r = ''ctr'') tab) = [PyStr ''50.000%'']" .
  with tab df ne show ?thesis
    by auto
qed

subsection \<open>Reading a formatted number back\<close>



















subsection \<open>The display table and the decision rule\<close>










































subsection \<open>SRM checker\<close>

lemma exp_minus_200: "exp (- 200 :: real) \<le> 1 / 2 ^ 200"
proof -
  have "(2::real) \<le> exp 1"
    using exp_ge_add_one_self [of "1::real"] by simp
  then have "(2::real) ^ 200 \<le> exp 1 ^ 200"
    by (intro power_mono) simp_all
  also have "\<dots> = exp (real 200 * 1)"
    by (rule exp_of_nat_mult [symmetric])
  finally have "(2::real) ^ 200 \<le> exp 200"
    by simp
  then have "inverse (exp (200::real)) \<le> inverse (2 ^ 200)"
    by (intro le_imp_inverse_le) simp_all
  then show ?thesis
    by (simp add: exp_minus inverse_eq_divide)
qed

lemma norm_sf_20: "norm_sf 20 < 5 / 10 ^ 11"
proof -
  have "norm_sf 20 \<le> norm_pdf 20 / 20"
    by (rule norm_sf_tail) simp
  also have "norm_pdf 20 = exp (- 200) / sqrt (2 * pi)"
    by (simp add: norm_pdf_def)
  also have "\<dots> \<le> exp (- 200) / 1"
  proof (rule divide_left_mono)
    have "1 \<le> 2 * pi"
      using pi_ge_two by simp
    then show "1 \<le> sqrt (2 * pi)"
      by simp
  qed simp_all
  also have "\<dots> \<le> 1 / 2 ^ 200"
    using exp_minus_200 by simp
  finally have "norm_sf 20 \<le> 1 / 2 ^ 200 / 20"
    by simp
  also have "\<dots> < 5 / 10 ^ 11"
    by simp
  finally show ?thesis .
qed

lemma stats_chisquare_totals_agree:
  assumes "o1 + o2 = e1 + e2"
  shows "stats_chisquare (o1, o2) ((e1, b1), (e2, b2)) =
           Inr (float_add (chisquare_term o1 (e1, b1)) (chisquare_term o2 (e2, b2)),
                chi2_sf (float_add (chisquare_term o1 (e1, b1)) (chisquare_term o2 (e2, b2))))"
  using assms by (simp add: stats_chisquare_def chisquare_rtol_def Let_def)

lemma srm_test_unfold:
  "srm_test n_c n_t share =
     Inr \<lparr>level = ''count'', n_control = n_c, n_treatment = n_t,
          expected_share_treatment = share,
          chi2 = float_add (chisquare_term (real_of_int n_c) (total_times (n_c + n_t) (1 - share)))
                           (chisquare_term (real_of_int n_t) (total_times (n_c + n_t) share)),
          p_value = chi2_sf
                 (float_add (chisquare_term (real_of_int n_c) (total_times (n_c + n_t) (1 - share)))
                            (chisquare_term (real_of_int n_t) (total_times (n_c + n_t) share)))\<rparr>"
proof -
  have tot: "real_of_int n_c + real_of_int n_t
      = real_of_int (n_c + n_t) * (1 - share) + real_of_int (n_c + n_t) * share"
    by (simp add: algebra_simps)
  show ?thesis
    unfolding srm_test_def Let_def total_times_def stats_chisquare_totals_agree [OF tot] by simp
qed

text \<open>
  Outside the range of the property below the floating-point special values show: with no
  observation at all both terms are \<open>0 / 0\<close>, and with an expected share of zero and
  treatment observations the treatment term is infinite.
\<close>

lemma srm_test_no_observations:
  "srm_test 0 0 (1 / 2) =
     Inr \<lparr>level = ''count'', n_control = 0, n_treatment = 0,
          expected_share_treatment = 1 / 2, chi2 = NaN, p_value = NaN\<rparr>"
  unfolding srm_test_unfold by (simp add: chisquare_term_def total_times_def)

lemma srm_test_zero_share:
  "srm_test 50 50 0 =
     Inr \<lparr>level = ''count'', n_control = 50, n_treatment = 50,
          expected_share_treatment = 0, chi2 = PInf, p_value = Fin 0\<rparr>"
  unfolding srm_test_unfold by (simp add: chisquare_term_def total_times_def)

text \<open>
  C5. For an expected share strictly between 0 and 1 and a positive total, the SRM checker
  tests the observed counts \<open>[n_control, n_treatment]\<close> against the expected counts
  \<open>total * (1 - share)\<close> and \<open>total * share\<close> with the two-category chi-square goodness-of-fit
  test: the statistic is the sum of \<open>(observed - expected)\<^sup>2 / expected\<close> and the p-value its
  chi-square(1) upper tail. On 6000 against 4000 with an expected share of one half the
  statistic is 400 and the p-value is below \<open>10\<^sup>-\<^sup>1\<^sup>0\<close>.
\<close>

theorem srm_test_spec:
  "(0 < share \<and> share < 1 \<and> 0 < n_c + n_t \<longrightarrow>
    srm_test n_c n_t share =
     Inr \<lparr>level = ''count'', n_control = n_c, n_treatment = n_t,
          expected_share_treatment = share,
          chi2 = Fin ((real_of_int n_c - real_of_int (n_c + n_t) * (1 - share))\<^sup>2
                   / (real_of_int (n_c + n_t) * (1 - share))
               + (real_of_int n_t - real_of_int (n_c + n_t) * share)\<^sup>2
                   / (real_of_int (n_c + n_t) * share)),
          p_value = Fin (chi2_sf_1
               ((real_of_int n_c - real_of_int (n_c + n_t) * (1 - share))\<^sup>2
                   / (real_of_int (n_c + n_t) * (1 - share))
               + (real_of_int n_t - real_of_int (n_c + n_t) * share)\<^sup>2
                   / (real_of_int (n_c + n_t) * share)))\<rparr>) \<and>
   (\<exists>r p. srm_test 6000 4000 (1 / 2) = Inr r \<and> chi2 r = Fin 400 \<and>
           SRMResult.p_value r = Fin p \<and> 0 \<le> p \<and> p < 1 / 10 ^ 10)"
proof -
  have gen: "srm_test n_c n_t share =
     Inr \<lparr>level = ''count'', n_control = n_c, n_treatment = n_t,
          expected_share_treatment = share,
          chi2 = Fin ((real_of_int n_c - real_of_int (n_c + n_t) * (1 - share))\<^sup>2
                   / (real_of_int (n_c + n_t) * (1 - share))
               + (real_of_int n_t - real_of_int (n_c + n_t) * share)\<^sup>2
                   / (real_of_int (n_c + n_t) * share)),
          p_value = Fin (chi2_sf_1
               ((real_of_int n_c - real_of_int (n_c + n_t) * (1 - share))\<^sup>2
                   / (real_of_int (n_c + n_t) * (1 - share))
               + (real_of_int n_t - real_of_int (n_c + n_t) * share)\<^sup>2
                   / (real_of_int (n_c + n_t) * share)))\<rparr>"
    if "0 < share" "share < 1" "0 < n_c + n_t" for n_c n_t share
  proof -
    have "real_of_int (n_c + n_t) * share \<noteq> 0" "real_of_int (n_c + n_t) * (1 - share) \<noteq> 0"
      using that by simp_all
    then show ?thesis
      unfolding srm_test_unfold by (simp add: chisquare_term_def total_times_def)
  qed
  have stat: "(real_of_int 6000 - real_of_int (6000 + 4000) * (1 - 1 / 2))\<^sup>2
                   / (real_of_int (6000 + 4000) * (1 - 1 / 2))
               + (real_of_int 4000 - real_of_int (6000 + 4000) * (1 / 2))\<^sup>2
                   / (real_of_int (6000 + 4000) * (1 / 2)) = (400::real)"
    by simp
  have sqrt400: "sqrt 400 = 20"
    by (rule real_sqrt_unique) simp_all
  have p: "chi2_sf_1 400 < 1 / 10 ^ 10"
    using norm_sf_20 by (simp add: chi2_sf_1_def sqrt400)
  have "norm_sf 20 \<ge> 0"
    using norm_sf_nonneg [of 20] by simp
  then have p0: "0 \<le> chi2_sf_1 400"
    by (simp add: chi2_sf_1_def sqrt400)
  have "srm_test 6000 4000 (1 / 2) =
     Inr \<lparr>level = ''count'', n_control = 6000, n_treatment = 4000,
          expected_share_treatment = 1 / 2, chi2 = Fin 400, p_value = Fin (chi2_sf_1 400)\<rparr>"
    unfolding gen [of "1 / 2" 6000 4000, simplified] stat by simp
  then have "\<exists>r p. srm_test 6000 4000 (1 / 2) = Inr r \<and> chi2 r = Fin 400 \<and>
           SRMResult.p_value r = Fin p \<and> 0 \<le> p \<and> p < 1 / 10 ^ 10"
    using p p0 by simp
  with gen show ?thesis
    by blast
qed

theorem srm_test_spec_witness:
  "(0::real) < 1 / 2 \<and> (1 / 2 :: real) < 1 \<and> (0::int) < 6000 + 4000 \<and>
   srm_test 6000 4000 (1 / 2) =
     Inr \<lparr>level = ''count'', n_control = 6000, n_treatment = 4000,
          expected_share_treatment = 1 / 2, chi2 = Fin 400, p_value = Fin (chi2_sf_1 400)\<rparr>"
  using srm_test_spec [of "1 / 2" 6000 4000] by simp

end
